theory Spec2Isabelle
  imports Main
begin

section \<open>Text\<close>

text \<open>
  A Python \<open>str\<close> is a sequence of Unicode code points, and \<open>len\<close>, slicing and
  \<open>ord\<close> work on code points. Text is therefore a list of code points. A literal is
  written \<open>py ''abc''\<close>.

  \<open>str.strip()\<close> removes the code points for which \<open>str.isspace\<close> holds; the set is
  finite and written out. \<open>str.lower()\<close> and \<open>str.upper()\<close> are modelled on
  ASCII, where they shift the 26 letters and leave everything else alone; the theorems
  that depend on a case mapping are stated for ASCII text.
\<close>

type_synonym pystr = "nat list"

definition py :: "string \<Rightarrow> pystr" where
  "py s = map of_char s"

definition ascii :: "pystr \<Rightarrow> bool" where
  "ascii s = list_all (\<lambda>c. c < 128) s"

definition isspace :: "nat \<Rightarrow> bool" where
  "isspace c = ((9 \<le> c \<and> c \<le> 13) \<or> (28 \<le> c \<and> c \<le> 32) \<or> c = 133 \<or> c = 160
     \<or> c = 5760 \<or> (8192 \<le> c \<and> c \<le> 8202) \<or> c = 8232 \<or> c = 8233
     \<or> c = 8239 \<or> c = 8287 \<or> c = 12288)"

definition strip :: "pystr \<Rightarrow> pystr" where
  "strip s = rev (dropWhile isspace (rev (dropWhile isspace s)))"

definition lower_char :: "nat \<Rightarrow> nat" where
  "lower_char c = (if 65 \<le> c \<and> c \<le> 90 then c + 32 else c)"

definition upper_char :: "nat \<Rightarrow> nat" where
  "upper_char c = (if 97 \<le> c \<and> c \<le> 122 then c - 32 else c)"

definition lower :: "pystr \<Rightarrow> pystr" where
  "lower s = map lower_char s"

definition upper :: "pystr \<Rightarrow> pystr" where
  "upper s = map upper_char s"

text \<open>\<open>s.rjust(w, c)\<close>: pad on the left up to width \<open>w\<close>; a longer string is unchanged.\<close>

definition rjust :: "nat \<Rightarrow> nat \<Rightarrow> pystr \<Rightarrow> pystr" where
  "rjust w c s = replicate (w - length s) c @ s"

section \<open>Errors\<close>

text \<open>
  The exceptions of the source, one constructor each. \<open>register_node\<close> raises
  \<open>ValueError('Invalid IP address: ...')\<close> and \<open>ValueError('Invalid MAC address: ...')\<close>,
  the windower raises \<open>ValueError('window_len must be positive')\<close>; they are told apart
  here under the names the specification gives them. \<open>KeyError\<close> and \<open>IntError\<close> are
  the failures of the table lookups and of \<open>int(ch)\<close> inside the encoder,
  \<open>OverflowError\<close> is the date arithmetic leaving the calendar,
  \<open>FileNotFoundError\<close> the opening of a file that does not exist.
  \<open>RegistryCorrupt\<close> is the error the specification names for a registry that
  cannot be decoded; no function of the source raises it.

  The names of the source are kept; a leading underscore (\<open>_normalize\<close>,
  \<open>_ensure_registry\<close>, \<open>_read_registry\<close>) is dropped.
\<close>

datatype error = InvalidAddress | InvalidHardwareId | InvalidWindowLength
  | RegistryCorrupt | KeyError | IntError | OverflowError | FileNotFoundError

section \<open>dna\_utils.py: the encoder\<close>

definition normalize :: "pystr \<Rightarrow> pystr \<Rightarrow> pystr \<Rightarrow> pystr \<times> pystr \<times> pystr" where
  "normalize ip hostname mac = (lower (strip ip), lower (strip hostname), lower (strip mac))"

text \<open>\<open>format(n, 'b')\<close>: the binary digits of \<open>n\<close>, most significant first, \<open>0\<close> for zero.\<close>

fun to_bin :: "nat \<Rightarrow> pystr" where
  "to_bin n = (if n < 2 then [48 + n] else to_bin (n div 2) @ [48 + n mod 2])"

declare to_bin.simps [simp del]

text \<open>\<open>f"{ord(c):08b}"\<close>: at least eight binary digits, zero-padded on the left.\<close>

definition format_08b :: "nat \<Rightarrow> pystr" where
  "format_08b n = rjust 8 48 (to_bin n)"

definition str_to_binary :: "pystr \<Rightarrow> pystr" where
  "str_to_binary s = concat (map format_08b s)"

text \<open>The two dictionaries of the source; a missing key raises \<open>KeyError\<close>.\<close>

definition dna_table :: "pystr \<Rightarrow> nat option" where
  "dna_table k =
     (if k = [48, 48] then Some 65
      else if k = [48, 49] then Some 67
      else if k = [49, 48] then Some 71
      else if k = [49, 49] then Some 84
      else None)"

definition base4_mapping :: "nat \<Rightarrow> nat option" where
  "base4_mapping b =
     (if b = 65 then Some 48
      else if b = 67 then Some 49
      else if b = 71 then Some 50
      else if b = 84 then Some 51
      else None)"

text \<open>The slices \<open>bin_str[i:i+2]\<close> for \<open>i = 0, 2, 4, ...\<close>; the last one may be short.\<close>

fun slices2 :: "pystr \<Rightarrow> pystr list" where
  "slices2 [] = []"
| "slices2 [a] = [[a]]"
| "slices2 (a # b # rest) = [a, b] # slices2 rest"

text \<open>A comprehension over a lookup that may raise: the first failure ends it.\<close>

fun map_raise :: "('a \<Rightarrow> 'b option) \<Rightarrow> 'a list \<Rightarrow> error + 'b list" where
  "map_raise f [] = Inr []"
| "map_raise f (x # xs) =
     (case f x of
        None \<Rightarrow> Inl KeyError
      | Some y \<Rightarrow> (case map_raise f xs of Inl e \<Rightarrow> Inl e | Inr ys \<Rightarrow> Inr (y # ys)))"

definition binary_to_dna :: "pystr \<Rightarrow> error + pystr" where
  "binary_to_dna bin_str =
     (let bin_str' = (if length bin_str mod 2 \<noteq> 0 then 48 # bin_str else bin_str)
      in map_raise dna_table (slices2 bin_str'))"

definition dna_to_base4_digits :: "pystr \<Rightarrow> error + pystr" where
  "dna_to_base4_digits dna = map_raise base4_mapping dna"

text \<open>\<open>int(ch)\<close> on one character: its value if it is a decimal digit, else \<open>ValueError\<close>.\<close>

definition int_of_digit :: "nat \<Rightarrow> int option" where
  "int_of_digit ch = (if 48 \<le> ch \<and> ch \<le> 57 then Some (int ch - 48) else None)"

fun base4_loop :: "int \<Rightarrow> pystr \<Rightarrow> error + int" where
  "base4_loop val [] = Inr val"
| "base4_loop val (ch # rest) =
     (case int_of_digit ch of
        None \<Rightarrow> Inl IntError
      | Some d \<Rightarrow> base4_loop (val * 4 + d) rest)"

definition base4_to_int :: "pystr \<Rightarrow> error + int" where
  "base4_to_int base4 = base4_loop 0 base4"

text \<open>\<open>format(n, 'x')\<close>: lowercase hexadecimal, no padding, a minus sign for a negative.\<close>

definition hex_digit :: "nat \<Rightarrow> nat" where
  "hex_digit d = (if d < 10 then 48 + d else 87 + d)"

fun to_hex :: "nat \<Rightarrow> pystr" where
  "to_hex n = (if n < 16 then [hex_digit n] else to_hex (n div 16) @ [hex_digit (n mod 16)])"

declare to_hex.simps [simp del]

definition format_x :: "int \<Rightarrow> pystr" where
  "format_x n = (if n < 0 then 45 # to_hex (nat (- n)) else to_hex (nat n))"

text \<open>
  \<open>if salt:\<close> is false for \<open>None\<close> and for the empty string. The separator
  \<open>|\<close> is code point 124.
\<close>

definition combined_text :: "pystr \<Rightarrow> pystr \<Rightarrow> pystr \<Rightarrow> pystr option \<Rightarrow> pystr" where
  "combined_text ip hostname mac salt =
     (case normalize ip hostname mac of (ip_n, host_n, mac_n) \<Rightarrow>
        let combined = ip_n @ [124] @ host_n @ [124] @ mac_n
        in (case salt of
              None \<Rightarrow> combined
            | Some s \<Rightarrow> if s = [] then combined else combined @ [124] @ s))"

definition generate_full_hex :: "pystr \<Rightarrow> pystr \<Rightarrow> pystr \<Rightarrow> pystr option \<Rightarrow> error + pystr" where
  "generate_full_hex ip hostname mac salt =
     (let binary = str_to_binary (combined_text ip hostname mac salt)
      in case binary_to_dna binary of
           Inl e \<Rightarrow> Inl e
         | Inr dna \<Rightarrow>
             (case dna_to_base4_digits dna of
                Inl e \<Rightarrow> Inl e
              | Inr base4 \<Rightarrow>
                  (case base4_to_int base4 of
                     Inl e \<Rightarrow> Inl e
                   | Inr n \<Rightarrow> Inr (format_x n))))"

section \<open>dna\_utils.py: the windower\<close>

text \<open>
  The dictionary \<open>{'full_hex', 'token', 'offset', 'window_len'}\<close> that the windower
  returns; the fields carry a prefix because the plain names are parameters of the
  function.
\<close>

record token_info =
  t_full_hex :: pystr
  t_token :: pystr
  t_offset :: nat
  t_window_len :: int

text \<open>
  \<open>secrets.randbelow(n)\<close> reads the operating system's entropy. The entropy a call
  consumes is an explicit argument, and the call returns its residue: every value
  below \<open>n\<close> is returned for some entropy, and no other value is.
\<close>

definition randbelow :: "nat \<Rightarrow> nat \<Rightarrow> nat" where
  "randbelow entropy n = entropy mod n"

text \<open>\<open>s[-k:]\<close> for positive \<open>k\<close>: the last \<open>k\<close> items, all of \<open>s\<close> when it is shorter.\<close>

definition last_n :: "nat \<Rightarrow> pystr \<Rightarrow> pystr" where
  "last_n k s = drop (length s - k) s"

definition generate_dna_token ::
  "pystr \<Rightarrow> pystr \<Rightarrow> pystr \<Rightarrow> pystr option \<Rightarrow> bool \<Rightarrow> int \<Rightarrow> pystr option \<Rightarrow> nat
     \<Rightarrow> error + token_info" where
  "generate_dna_token ip hostname mac salt random_window window_len full_hex entropy =
     (case (case full_hex of
              None \<Rightarrow> generate_full_hex ip hostname mac salt
            | Some h \<Rightarrow> Inr h) of
        Inl e \<Rightarrow> Inl e
      | Inr fh \<Rightarrow>
          (let hex_upper = upper fh; L = length hex_upper
           in if window_len \<le> 0 then Inl InvalidWindowLength
              else if int L \<le> window_len then
                Inr \<lparr>t_full_hex = hex_upper,
                     t_token = last_n (nat window_len) (rjust (nat window_len) 48 hex_upper),
                     t_offset = 0, t_window_len = window_len\<rparr>
              else
                (let offset = (if random_window
                               then randbelow entropy ((L - nat window_len) + 1)
                               else L - nat window_len)
                 in Inr \<lparr>t_full_hex = hex_upper,
                         t_token = take (nat window_len) (drop offset hex_upper),
                         t_offset = offset, t_window_len = window_len\<rparr>)))"

section \<open>authority.py: the validators\<close>

text \<open>
  The patterns of the source are kept as regular expressions. \<open>rx_match r s\<close> lists
  what is left of \<open>s\<close> after each way of matching \<open>r\<close> at its start, which is
  the search that \<open>re.match\<close> performs by backtracking. \<open>Range lo hi\<close> is one
  character between two code points; \<open>\d\<close> is the range of the ASCII digits (in
  Python it also matches the decimal digits of other scripts, which no theorem
  below uses).
\<close>

datatype rx = Eps | Range nat nat | Seq rx rx | Alt rx rx | Opt rx

fun rx_match :: "rx \<Rightarrow> pystr \<Rightarrow> pystr list" where
  "rx_match Eps s = [s]"
| "rx_match (Range lo hi) s =
     (case s of [] \<Rightarrow> [] | c # rest \<Rightarrow> if lo \<le> c \<and> c \<le> hi then [rest] else [])"
| "rx_match (Seq a b) s = concat (map (rx_match b) (rx_match a s))"
| "rx_match (Alt a b) s = rx_match a s @ rx_match b s"
| "rx_match (Opt a) s = rx_match a s @ [s]"

text \<open>\<open>r{n}\<close>\<close>

fun times :: "nat \<Rightarrow> rx \<Rightarrow> rx" where
  "times 0 r = Eps"
| "times (Suc n) r = Seq r (times n r)"

definition lit :: "nat \<Rightarrow> rx" where
  "lit c = Range c c"

text \<open>
  \<open>re.match('^...$', s)\<close>: the pattern is matched at the start of \<open>s\<close>, and
  \<open>$\<close> holds at the end of the string and also just before a newline that ends the
  string.
\<close>

definition re_match :: "rx \<Rightarrow> pystr \<Rightarrow> bool" where
  "re_match r s = list_ex (\<lambda>rest. rest = [] \<or> rest = [10]) (rx_match r s)"

text \<open>\<open>(25[0-5]|2[0-4]\d|1?\d?\d)\<close>\<close>

definition rx_digit :: rx where
  "rx_digit = Range 48 57"

definition rx_octet :: rx where
  "rx_octet =
     Alt (Seq (lit 50) (Seq (lit 53) (Range 48 53)))
       (Alt (Seq (lit 50) (Seq (Range 48 52) rx_digit))
            (Seq (Opt (lit 49)) (Seq (Opt rx_digit) rx_digit)))"

definition is_valid_ip :: "pystr \<Rightarrow> bool" where
  "is_valid_ip ip = re_match (Seq (times 3 (Seq rx_octet (lit 46))) rx_octet) ip"

text \<open>\<open>[0-9A-Fa-f]\<close>\<close>

definition rx_hex :: rx where
  "rx_hex = Alt (Range 48 57) (Alt (Range 65 70) (Range 97 102))"

definition is_valid_mac :: "pystr \<Rightarrow> bool" where
  "is_valid_mac mac =
     (let mac' = strip mac
      in re_match (Seq (times 5 (Seq (times 2 rx_hex) (lit 58))) (times 2 rx_hex)) mac'
         \<or> re_match (times 12 rx_hex) mac'
         \<or> re_match (Seq (times 2 (Seq (times 4 rx_hex) (lit 46))) (times 4 rx_hex)) mac')"

section \<open>The clock\<close>

text \<open>
  \<open>datetime.utcnow()\<close> reads the clock; each reading is an argument of the function
  that takes it. A \<open>datetime\<close> is a day, numbered as \<open>date.toordinal\<close> does
  (day 1 is 0001-01-01, day 3652059 is 9999-12-31), and a time of day.
\<close>

record datetime =
  dt_ordinal :: int
  dt_hour :: nat
  dt_minute :: nat
  dt_second :: nat
  dt_microsecond :: nat

text \<open>
  \<open>now + timedelta(days=days)\<close>: \<open>timedelta\<close> refuses more than 999999999 days and
  the sum must stay inside the calendar, both with \<open>OverflowError\<close>.
\<close>

definition add_days :: "datetime \<Rightarrow> int \<Rightarrow> error + datetime" where
  "add_days now days =
     (if days < - 999999999 \<or> 999999999 < days then Inl OverflowError
      else if dt_ordinal now + days < 1 \<or> 3652059 < dt_ordinal now + days then Inl OverflowError
      else Inr (now\<lparr>dt_ordinal := dt_ordinal now + days\<rparr>))"

text \<open>Year, month and day of a day number, in the proleptic Gregorian calendar.\<close>

definition ord2ymd :: "int \<Rightarrow> int \<times> int \<times> int" where
  "ord2ymd n =
     (let z = n + 305;
          era = z div 146097;
          doe = z mod 146097;
          yoe = (doe - doe div 1460 + doe div 36524 - doe div 146096) div 365;
          doy = doe - (365 * yoe + yoe div 4 - yoe div 100);
          mp = (5 * doy + 2) div 153;
          d = doy - (153 * mp + 2) div 5 + 1;
          m = (if mp < 10 then mp + 3 else mp - 9);
          y = yoe + era * 400 + (if m \<le> 2 then 1 else 0)
      in (y, m, d))"

text \<open>\<open>str(n)\<close> for an integer, and \<open>'%0wd' % n\<close> for a natural number.\<close>

fun to_dec :: "nat \<Rightarrow> pystr" where
  "to_dec n = (if n < 10 then [48 + n] else to_dec (n div 10) @ [48 + n mod 10])"

declare to_dec.simps [simp del]

definition str_int :: "int \<Rightarrow> pystr" where
  "str_int n = (if n < 0 then 45 # to_dec (nat (- n)) else to_dec (nat n))"

definition zero_pad :: "nat \<Rightarrow> nat \<Rightarrow> pystr" where
  "zero_pad w n = rjust w 48 (to_dec n)"

definition date_isoformat :: "int \<Rightarrow> pystr" where
  "date_isoformat n =
     (case ord2ymd n of (y, m, d) \<Rightarrow>
        zero_pad 4 (nat y) @ [45] @ zero_pad 2 (nat m) @ [45] @ zero_pad 2 (nat d))"

definition datetime_isoformat :: "datetime \<Rightarrow> pystr" where
  "datetime_isoformat t =
     date_isoformat (dt_ordinal t) @ [84] @ zero_pad 2 (dt_hour t) @ [58]
       @ zero_pad 2 (dt_minute t) @ [58] @ zero_pad 2 (dt_second t)
       @ (if dt_microsecond t = 0 then [] else 46 # zero_pad 6 (dt_microsecond t))"

section \<open>authority.py: the registry file\<close>

text \<open>
  \<open>registry.csv\<close> has the columns \<open>ip, hostname, mac, token, created\<close>. The
  \<open>csv\<close> module quotes a field on writing and unquotes it on reading, so that a
  field read back is the text written: the file is its list of rows, each of five
  texts, and \<open>None\<close> is the file that does not exist.
\<close>

record csv_row =
  c_ip :: pystr
  c_hostname :: pystr
  c_mac :: pystr
  c_token :: pystr
  c_created :: pystr

type_synonym csv_file = "csv_row list option"

text \<open>
  In memory a row is a dictionary. \<open>csv.DictReader\<close> fills it with texts;
  \<open>register_node\<close> and \<open>rotate_tokens\<close> then store under \<open>'token'\<close> the
  dictionary that \<open>generate_dna_token\<close> returned, so the value under that key is of
  either kind.
\<close>

datatype cell = Str pystr | Dict token_info

record row =
  r_ip :: pystr
  r_hostname :: pystr
  r_mac :: pystr
  r_token :: cell
  r_created :: pystr

text \<open>
  \<open>csv.DictWriter\<close> writes \<open>str(value)\<close>. For the dictionary this is its
  \<open>repr\<close>, with the keys in insertion order; \<open>repr\<close> of a text without quotes,
  backslashes or control characters, as the uppercase hexadecimal texts here are,
  is the text between two apostrophes.
\<close>

definition repr_str :: "pystr \<Rightarrow> pystr" where
  "repr_str s = [39] @ s @ [39]"

definition str_dict :: "token_info \<Rightarrow> pystr" where
  "str_dict d =
     py ''{'' @ repr_str (py ''full_hex'') @ py '': '' @ repr_str (t_full_hex d)
       @ py '', '' @ repr_str (py ''token'') @ py '': '' @ repr_str (t_token d)
       @ py '', '' @ repr_str (py ''offset'') @ py '': '' @ str_int (int (t_offset d))
       @ py '', '' @ repr_str (py ''window_len'') @ py '': '' @ str_int (t_window_len d)
       @ py ''}''"

definition str_cell :: "cell \<Rightarrow> pystr" where
  "str_cell v = (case v of Str s \<Rightarrow> s | Dict d \<Rightarrow> str_dict d)"

definition read_row :: "csv_row \<Rightarrow> row" where
  "read_row c = \<lparr>r_ip = c_ip c, r_hostname = c_hostname c, r_mac = c_mac c,
                  r_token = Str (c_token c), r_created = c_created c\<rparr>"

definition write_row :: "row \<Rightarrow> csv_row" where
  "write_row r = \<lparr>c_ip = r_ip r, c_hostname = r_hostname r, c_mac = r_mac r,
                   c_token = str_cell (r_token r), c_created = r_created r\<rparr>"

text \<open>\<open>_ensure_registry\<close>: a missing file is created with the header line only.\<close>

definition ensure_registry :: "csv_file \<Rightarrow> csv_file" where
  "ensure_registry f = (case f of None \<Rightarrow> Some [] | Some rows \<Rightarrow> Some rows)"

text \<open>Reading all rows of the file; opening a file that does not exist raises.\<close>

definition read_rows :: "csv_file \<Rightarrow> error + row list" where
  "read_rows f =
     (case f of None \<Rightarrow> Inl FileNotFoundError | Some rows \<Rightarrow> Inr (map read_row rows))"

definition write_rows :: "row list \<Rightarrow> csv_file" where
  "write_rows rows = Some (map write_row rows)"

section \<open>authority.py: register, verify, rotate\<close>

text \<open>
  The \<open>for ... break ... else\<close> of \<open>register_node\<close>: the first row with the same
  three texts is updated and the loop stops; \<open>None\<close> is the loop running to its end,
  which is when the \<open>else\<close> branch appends.
\<close>

fun register_loop :: "pystr \<Rightarrow> pystr \<Rightarrow> pystr \<Rightarrow> cell \<Rightarrow> pystr \<Rightarrow> row list \<Rightarrow> row list option" where
  "register_loop ip hostname mac tok now [] = None"
| "register_loop ip hostname mac tok now (r # rs) =
     (if r_ip r = ip \<and> r_mac r = mac \<and> r_hostname r = hostname
      then Some (r\<lparr>r_token := tok, r_created := now\<rparr> # rs)
      else map_option ((#) r) (register_loop ip hostname mac tok now rs))"

text \<open>
  The functions take the file and return it with their result. \<open>utcnow\<close> is the
  reading of the clock and \<open>entropy\<close> what \<open>secrets.randbelow\<close> consumes.
\<close>

definition register_node ::
  "csv_file \<Rightarrow> pystr \<Rightarrow> pystr \<Rightarrow> pystr \<Rightarrow> pystr option \<Rightarrow> datetime \<Rightarrow> nat
     \<Rightarrow> (error + token_info) \<times> csv_file" where
  "register_node file ip hostname mac salt utcnow entropy =
     (let file1 = ensure_registry file
      in if \<not> is_valid_ip ip then (Inl InvalidAddress, file1)
         else if \<not> is_valid_mac mac then (Inl InvalidHardwareId, file1)
         else
           (case generate_dna_token ip hostname mac salt True 8 None entropy of
              Inl e \<Rightarrow> (Inl e, file1)
            | Inr token \<Rightarrow>
                (let now = datetime_isoformat utcnow
                 in case read_rows file1 of
                      Inl e \<Rightarrow> (Inl e, file1)
                    | Inr rows \<Rightarrow>
                        (let rows' =
                               (case register_loop ip hostname mac (Dict token) now rows of
                                  Some updated \<Rightarrow> updated
                                | None \<Rightarrow>
                                    rows @ [\<lparr>r_ip = ip, r_hostname = hostname, r_mac = mac,
                                             r_token = Dict token, r_created = now\<rparr>])
                         in (Inr token, write_rows rows')))))"

text \<open>
  \<open>verify_node\<close> looks at the first row with the hostname. \<open>stored == recomputed\<close>
  compares the text read from the file with the dictionary just computed; Python's
  \<open>==\<close> between values of different kinds is false, as equality of \<open>cell\<close> is.
\<close>

fun verify_loop :: "pystr \<Rightarrow> pystr \<Rightarrow> pystr \<Rightarrow> cell \<Rightarrow> row list \<Rightarrow> bool" where
  "verify_loop ip hostname mac recomputed [] = False"
| "verify_loop ip hostname mac recomputed (r # rs) =
     (if r_hostname r = hostname
      then (if r_token r = recomputed \<and> r_ip r = ip \<and> r_mac r = mac then True else False)
      else verify_loop ip hostname mac recomputed rs)"

text \<open>The value \<open>recomputed\<close> of \<open>verify_node\<close>.\<close>

definition verify_recomputed :: "pystr \<Rightarrow> pystr \<Rightarrow> pystr \<Rightarrow> pystr option \<Rightarrow> nat \<Rightarrow> error + token_info" where
  "verify_recomputed ip hostname mac salt entropy =
     generate_dna_token ip hostname mac salt True 8 None entropy"

definition verify_node ::
  "csv_file \<Rightarrow> pystr \<Rightarrow> pystr \<Rightarrow> pystr \<Rightarrow> pystr option \<Rightarrow> nat \<Rightarrow> (error + bool) \<times> csv_file" where
  "verify_node file ip hostname mac salt entropy =
     (let file1 = ensure_registry file
      in if \<not> is_valid_ip ip then (Inr False, file1)
         else if \<not> is_valid_mac mac then (Inr False, file1)
         else
           (case verify_recomputed ip hostname mac salt entropy of
              Inl e \<Rightarrow> (Inl e, file1)
            | Inr recomputed \<Rightarrow>
                (case read_rows file1 of
                   Inl e \<Rightarrow> (Inl e, file1)
                 | Inr rows \<Rightarrow>
                     (Inr (verify_loop ip hostname mac (Dict recomputed) rows), file1))))"

text \<open>
  The loop of \<open>rotate_tokens\<close>; row \<open>i\<close> takes the entropy \<open>entropy i\<close> and the
  clock reading \<open>clock i\<close>. An exception leaves the loop, and the function.
\<close>

fun rotate_loop :: "pystr \<Rightarrow> (nat \<Rightarrow> datetime) \<Rightarrow> (nat \<Rightarrow> nat) \<Rightarrow> nat \<Rightarrow> row list \<Rightarrow> error + row list" where
  "rotate_loop salt clock entropy i [] = Inr []"
| "rotate_loop salt clock entropy i (r # rs) =
     (case generate_dna_token (r_ip r) (r_hostname r) (r_mac r) (Some salt) True 8 None (entropy i) of
        Inl e \<Rightarrow> Inl e
      | Inr new_token \<Rightarrow>
          (case rotate_loop salt clock entropy (Suc i) rs of
             Inl e \<Rightarrow> Inl e
           | Inr rs' \<Rightarrow>
               Inr (r\<lparr>r_token := Dict new_token, r_created := datetime_isoformat (clock i)\<rparr> # rs')))"

definition rotate_tokens ::
  "csv_file \<Rightarrow> int \<Rightarrow> pystr \<Rightarrow> datetime \<Rightarrow> (nat \<Rightarrow> datetime) \<Rightarrow> (nat \<Rightarrow> nat)
     \<Rightarrow> (error + pystr) \<times> csv_file" where
  "rotate_tokens file days salt_prefix utcnow clock entropy =
     (let file1 = ensure_registry file
      in case read_rows file1 of
           Inl e \<Rightarrow> (Inl e, file1)
         | Inr rows \<Rightarrow>
             (case add_days utcnow days of
                Inl e \<Rightarrow> (Inl e, file1)
              | Inr t \<Rightarrow>
                  (let epoch_date = date_isoformat (dt_ordinal t);
                       salt = salt_prefix @ [45] @ epoch_date
                   in case rotate_loop salt clock entropy 0 rows of
                        Inl e \<Rightarrow> (Inl e, file1)
                      | Inr rows' \<Rightarrow> (Inr salt, write_rows rows'))))"

section \<open>flask\_api.py: reading the JSON registry\<close>

text \<open>
  \<open>node_registry.json\<close> is absent, or it is there and \<open>open\<close> and \<open>json.load\<close>,
  called on it, do one of these: return the decoded document; raise
  \<open>JSONDecodeError\<close>, because the text is not JSON; raise another exception,
  \<open>UnicodeDecodeError\<close> when the bytes are no text, \<open>RecursionError\<close> when the
  nesting is too deep, \<open>OSError\<close> when the file cannot be opened, or any other.
  A decoded document is a list, of entries of any kind, or another JSON value.
\<close>

datatype ('a, 'b) document = JList "'a list" | JOther 'b

datatype exception = JSONDecodeError | UnicodeDecodeError | RecursionError | OSError
  | OtherException

datatype ('a, 'b) json_load = Returns "('a, 'b) document" | Raises exception

datatype ('a, 'b) json_file = Absent | Present "('a, 'b) json_load"

text \<open>
  The \<open>try\<close> of \<open>_read_registry\<close> has one handler, for \<open>json.JSONDecodeError\<close>;
  every other exception leaves the function, and what \<open>json.load\<close> returns is
  returned as it is.
\<close>

definition read_registry :: "('a, 'b) json_file \<Rightarrow> exception + ('a, 'b) document" where
  "read_registry f =
     (case f of
        Absent \<Rightarrow> Inr (JList [])
      | Present l \<Rightarrow>
          (case l of
             Returns doc \<Rightarrow> Inr doc
           | Raises e \<Rightarrow> if e = JSONDecodeError then Inr (JList []) else Inl e))"

section \<open>authority.py: loading a registry file of any contents\<close>

text \<open>
  The rows above are those of a \<open>registry.csv\<close> that this module wrote. In
  general \<open>csv.reader\<close> splits the file into lines of fields, a blank line being the
  empty list (it raises on bytes that are no text and on a field beyond its size limit;
  a file is given here by the lines it is split into), and \<open>csv.DictReader\<close> makes a
  dictionary of each line, whatever the number of its fields: the first line
  gives the keys (a file without a first line has no rows), blank lines are skipped,
  a line with fewer fields than keys gets \<open>None\<close> under the keys it lacks, and the
  fields of a longer line beyond the keys are stored as a list under the key
  \<open>None\<close>. A dictionary is the list of its items in insertion order.
\<close>

type_synonym raw_csv = "pystr list list"

datatype csv_value = Txt pystr | PyNone | Rest "pystr list"

type_synonym csv_dict = "(pystr option \<times> csv_value) list"

text \<open>\<open>d[k] = v\<close>\<close>

fun dict_set :: "csv_dict \<Rightarrow> pystr option \<Rightarrow> csv_value \<Rightarrow> csv_dict" where
  "dict_set [] k v = [(k, v)]"
| "dict_set ((k', v') # d) k v =
     (if k' = k then (k', v) # d else (k', v') # dict_set d k v)"

text \<open>\<open>dict(zip(keys, values))\<close>\<close>

definition dict_zip :: "pystr option list \<Rightarrow> csv_value list \<Rightarrow> csv_dict" where
  "dict_zip keys vals = foldl (\<lambda>d (k, v). dict_set d k v) [] (zip keys vals)"

text \<open>The body of \<open>DictReader.__next__\<close> after the blank lines, with \<open>restkey = None\<close>
  and \<open>restval = None\<close>.\<close>

definition dict_reader_row :: "pystr list \<Rightarrow> pystr list \<Rightarrow> csv_dict" where
  "dict_reader_row fieldnames row =
     (let d = dict_zip (map Some fieldnames) (map Txt row);
          lf = length fieldnames;
          lr = length row
      in if lf < lr then dict_set d None (Rest (drop lf row))
         else if lf > lr then foldl (\<lambda>d key. dict_set d (Some key) PyNone) d (drop lr fieldnames)
         else d)"

definition dict_reader :: "raw_csv \<Rightarrow> csv_dict list" where
  "dict_reader lines =
     (case lines of
        [] \<Rightarrow> []
      | fieldnames # rest \<Rightarrow> map (dict_reader_row fieldnames) (filter (\<lambda>row. row \<noteq> []) rest))"

definition registry_header :: "pystr list" where
  "registry_header = [py ''ip'', py ''hostname'', py ''mac'', py ''token'', py ''created'']"

text \<open>
  \<open>_ensure_registry\<close> on such a file, and the loading that \<open>register_node\<close> and
  \<open>rotate_tokens\<close> start with: \<open>_ensure_registry()\<close>, then
  \<open>for r in csv.DictReader(f): rows.append(r)\<close>.
\<close>

definition ensure_registry_raw :: "raw_csv option \<Rightarrow> raw_csv" where
  "ensure_registry_raw f = (case f of None \<Rightarrow> [registry_header] | Some lines \<Rightarrow> lines)"

definition load_rows :: "raw_csv option \<Rightarrow> csv_dict list" where
  "load_rows f = dict_reader (ensure_registry_raw f)"

text \<open>The lines of a file that this module wrote, and the dictionary read from one.\<close>

definition written_lines :: "csv_row list \<Rightarrow> raw_csv" where
  "written_lines cs =
     registry_header # map (\<lambda>c. [c_ip c, c_hostname c, c_mac c, c_token c, c_created c]) cs"

definition dict_of_row :: "row \<Rightarrow> csv_dict" where
  "dict_of_row r =
     [(Some (py ''ip''), Txt (r_ip r)), (Some (py ''hostname''), Txt (r_hostname r)),
      (Some (py ''mac''), Txt (r_mac r)), (Some (py ''token''), Txt (str_cell (r_token r))),
      (Some (py ''created''), Txt (r_created r))]"

section \<open>The specification's wording\<close>

text \<open>
  The encoder as the specification describes it (section 4.2): the concatenated text
  is turned into its byte sequence, each byte into its 8 bits, most significant
  first; the bits are grouped in pairs, after one \<open>0\<close> bit in front if their number
  is odd; each pair is mapped to one of four symbols and each symbol to its base-4
  digit; the digits are read as a number in base 4, most significant first, and the
  number is written in lowercase hexadecimal. The byte sequence of a text is its
  UTF-8 encoding, which is what \<open>s.encode('utf-8')\<close> gives in the same module.
\<close>

definition utf8_char :: "nat \<Rightarrow> nat list" where
  "utf8_char c =
     (if c < 128 then [c]
      else if c < 2048 then [192 + c div 64, 128 + c mod 64]
      else if c < 65536 then [224 + c div 4096, 128 + (c div 64) mod 64, 128 + c mod 64]
      else [240 + c div 262144, 128 + (c div 4096) mod 64, 128 + (c div 64) mod 64,
            128 + c mod 64])"

definition utf8_encode :: "pystr \<Rightarrow> nat list" where
  "utf8_encode s = concat (map utf8_char s)"

fun bits_msb :: "nat \<Rightarrow> nat \<Rightarrow> bool list" where
  "bits_msb 0 n = []"
| "bits_msb (Suc k) n = bits_msb k (n div 2) @ [odd n]"

definition byte_bits :: "nat \<Rightarrow> bool list" where
  "byte_bits b = bits_msb 8 b"

datatype symbol = A | C | G | T

fun symbol_of_pair :: "bool \<Rightarrow> bool \<Rightarrow> symbol" where
  "symbol_of_pair False False = A"
| "symbol_of_pair False True = C"
| "symbol_of_pair True False = G"
| "symbol_of_pair True True = T"

fun digit_of_symbol :: "symbol \<Rightarrow> nat" where
  "digit_of_symbol A = 0"
| "digit_of_symbol C = 1"
| "digit_of_symbol G = 2"
| "digit_of_symbol T = 3"

fun pairs :: "bool list \<Rightarrow> symbol list" where
  "pairs (a # b # rest) = symbol_of_pair a b # pairs rest"
| "pairs _ = []"

definition base4_value :: "nat list \<Rightarrow> nat" where
  "base4_value ds = foldl (\<lambda>v d. v * 4 + d) 0 ds"

definition join3 :: "pystr \<times> pystr \<times> pystr \<Rightarrow> pystr" where
  "join3 t = (case t of (a, h, m) \<Rightarrow> a @ [124] @ h @ [124] @ m)"

definition spec_text :: "pystr \<Rightarrow> pystr \<Rightarrow> pystr \<Rightarrow> pystr option \<Rightarrow> pystr" where
  "spec_text ip hostname mac salt =
     join3 (normalize ip hostname mac)
       @ (if salt = None \<or> salt = Some [] then [] else 124 # the salt)"

definition spec_number :: "nat list \<Rightarrow> nat" where
  "spec_number bytes =
     (let bits = concat (map byte_bits bytes);
          padded = (if odd (length bits) then False # bits else bits)
      in base4_value (map digit_of_symbol (pairs padded)))"

definition spec_full_code :: "pystr \<Rightarrow> pystr \<Rightarrow> pystr \<Rightarrow> pystr option \<Rightarrow> pystr" where
  "spec_full_code ip hostname mac salt =
     format_x (int (spec_number (utf8_encode (spec_text ip hostname mac salt))))"

text \<open>
  "Dotted-quad decimal form with each octet in 0-255" (section 4.1): four parts
  between three dots, each a non-empty run of decimal digits whose value is at most
  255.
\<close>

fun split_on :: "nat \<Rightarrow> pystr \<Rightarrow> pystr list" where
  "split_on sep [] = [[]]"
| "split_on sep (c # cs) =
     (if c = sep then [] # split_on sep cs
      else (case split_on sep cs of [] \<Rightarrow> [[c]] | p # ps \<Rightarrow> (c # p) # ps))"

definition dec_value :: "pystr \<Rightarrow> nat" where
  "dec_value p = foldl (\<lambda>v c. v * 10 + (c - 48)) 0 p"

definition decimal_octet :: "pystr \<Rightarrow> bool" where
  "decimal_octet p = (p \<noteq> [] \<and> list_all (\<lambda>c. 48 \<le> c \<and> c \<le> 57) p \<and> dec_value p \<le> 255)"

definition dotted_quad :: "pystr \<Rightarrow> bool" where
  "dotted_quad s = (length (split_on 46 s) = 4 \<and> list_all decimal_octet (split_on 46 s))"

text \<open>
  "Two tuples are the same device iff all three normalized fields are equal"
  (section 3).
\<close>

definition same_device :: "pystr \<times> pystr \<times> pystr \<Rightarrow> pystr \<times> pystr \<times> pystr \<Rightarrow> bool" where
  "same_device t t' =
     (case t of (a, h, m) \<Rightarrow> case t' of (a', h', m') \<Rightarrow> normalize a h m = normalize a' h' m')"

section \<open>Auxiliary notions\<close>

text \<open>The identity under which \<open>register_node\<close> looks a row up, and the rows of a file.\<close>

definition key :: "csv_row \<Rightarrow> pystr \<times> pystr \<times> pystr" where
  "key c = (c_ip c, c_hostname c, c_mac c)"

definition file_rows :: "csv_file \<Rightarrow> csv_row list" where
  "file_rows f = (case f of None \<Rightarrow> [] | Some rows \<Rightarrow> rows)"

text \<open>The digit strings of the encoder, read as the bits, symbols and digits they spell.\<close>

definition bitchar :: "bool \<Rightarrow> nat" where
  "bitchar b = (if b then 49 else 48)"

fun nat_bits :: "nat \<Rightarrow> bool list" where
  "nat_bits n = (if n < 2 then [n = 1] else nat_bits (n div 2) @ [odd n])"

declare nat_bits.simps [simp del]

definition cp_bits :: "nat \<Rightarrow> bool list" where
  "cp_bits c = replicate (8 - length (nat_bits c)) False @ nat_bits c"

definition symchar :: "symbol \<Rightarrow> nat" where
  "symchar s = (case s of A \<Rightarrow> 65 | C \<Rightarrow> 67 | G \<Rightarrow> 71 | T \<Rightarrow> 84)"

definition digitchar :: "nat \<Rightarrow> nat" where
  "digitchar d = 48 + d"

definition code_number :: "pystr \<Rightarrow> nat" where
  "code_number s =
     (let bits = concat (map cp_bits s);
          padded = (if odd (length bits) then False # bits else bits)
      in base4_value (map digit_of_symbol (pairs padded)))"

section \<open>Evaluation rules\<close>

lemma replicate_num: "replicate (numeral k) x = x # replicate (pred_numeral k) x"
  by (simp add: numeral_eq_Suc)

lemma byte_bits_explicit:
  "byte_bits b = [odd (b div 128), odd (b div 64), odd (b div 32), odd (b div 16),
                  odd (b div 8), odd (b div 4), odd (b div 2), odd b]"
proof -
  have "bits_msb (Suc (Suc (Suc (Suc (Suc (Suc (Suc (Suc 0)))))))) b
     = [odd (b div 128), odd (b div 64), odd (b div 32), odd (b div 16),
        odd (b div 8), odd (b div 4), odd (b div 2), odd b]"
    by (simp add: div_mult2_eq [symmetric])
  moreover have "(8::nat) = Suc (Suc (Suc (Suc (Suc (Suc (Suc (Suc 0)))))))" by simp
  ultimately show ?thesis by (simp only: byte_bits_def)
qed

lemmas text_eval = py_def strip_def lower_def lower_char_def upper_def upper_char_def isspace_def
  normalize_def ascii_def

lemmas enc_eval = generate_full_hex_def combined_text_def text_eval
  str_to_binary_def format_08b_def rjust_def to_bin.simps binary_to_dna_def dna_table_def
  dna_to_base4_digits_def base4_mapping_def base4_to_int_def int_of_digit_def format_x_def
  to_hex.simps hex_digit_def Let_def replicate_num

lemmas spec_eval = spec_full_code_def spec_text_def join3_def text_eval
  utf8_encode_def utf8_char_def spec_number_def byte_bits_explicit base4_value_def
  format_x_def to_hex.simps hex_digit_def Let_def

lemma times_num: "times (numeral k) r = Seq r (times (pred_numeral k) r)"
  by (simp add: numeral_eq_Suc)

lemmas rx_eval = is_valid_ip_def is_valid_mac_def re_match_def rx_octet_def rx_digit_def rx_hex_def
  lit_def strip_def isspace_def py_def Let_def times_num

section \<open>The encoder computes a number from the bits of the code points\<close>

lemma to_bin_bits: "to_bin n = map bitchar (nat_bits n)"
proof (induction n rule: to_bin.induct)
  case (1 n)
  show ?case
  proof (cases "n < 2")
    case True
    then have "n = 0 \<or> n = 1" by auto
    then show ?thesis by (auto simp: to_bin.simps [of n] nat_bits.simps [of n] bitchar_def)
  next
    case False
    have "48 + n mod 2 = bitchar (odd n)" by (auto simp: bitchar_def odd_iff_mod_2_eq_one)
    with False 1 show ?thesis by (simp add: to_bin.simps [of n] nat_bits.simps [of n])
  qed
qed

lemma format_08b_bits: "format_08b c = map bitchar (cp_bits c)"
  by (simp add: format_08b_def rjust_def cp_bits_def to_bin_bits bitchar_def)

lemma str_to_binary_bits: "str_to_binary s = map bitchar (concat (map cp_bits s))"
  by (induction s) (simp_all add: str_to_binary_def format_08b_bits)

lemma dna_table_pair: "dna_table [bitchar a, bitchar b] = Some (symchar (symbol_of_pair a b))"
  by (cases a; cases b) (simp_all add: dna_table_def bitchar_def symchar_def)

lemma map_raise_pairs:
  "even (length bs) \<Longrightarrow>
     map_raise dna_table (slices2 (map bitchar bs)) = Inr (map symchar (pairs bs))"
proof (induction bs rule: pairs.induct)
  case (1 a b rest)
  then show ?case by (simp add: dna_table_pair)
qed simp_all

lemma binary_to_dna_bits:
  "binary_to_dna (map bitchar bs)
     = Inr (map symchar (pairs (if odd (length bs) then False # bs else bs)))"
proof (cases "odd (length bs)")
  case True
  then have "map_raise dna_table (slices2 (map bitchar (False # bs)))
      = Inr (map symchar (pairs (False # bs)))"
    by (intro map_raise_pairs) simp
  with True show ?thesis by (simp add: binary_to_dna_def bitchar_def odd_iff_mod_2_eq_one)
next
  case False
  then have "map_raise dna_table (slices2 (map bitchar bs)) = Inr (map symchar (pairs bs))"
    by (intro map_raise_pairs) simp
  with False show ?thesis by (simp add: binary_to_dna_def even_iff_mod_2_eq_zero)
qed

lemma base4_mapping_sym: "base4_mapping (symchar s) = Some (digitchar (digit_of_symbol s))"
  by (cases s) (simp_all add: base4_mapping_def symchar_def digitchar_def)

lemma dna_to_base4_syms:
  "dna_to_base4_digits (map symchar ss) = Inr (map digitchar (map digit_of_symbol ss))"
  by (induction ss) (simp_all add: dna_to_base4_digits_def base4_mapping_sym)

lemma digit_of_symbol_less: "digit_of_symbol s < 4"
  by (cases s) simp_all

lemma base4_loop_digits:
  "\<forall>d \<in> set ds. d < 10 \<Longrightarrow>
     base4_loop v (map digitchar ds) = Inr (foldl (\<lambda>v d. v * 4 + int d) v ds)"
  by (induction ds arbitrary: v) (simp_all add: int_of_digit_def digitchar_def)

lemma foldl_int:
  "foldl (\<lambda>v d. v * 4 + int d) (int v) ds = int (foldl (\<lambda>v d. v * 4 + d) v ds)"
  by (induction ds arbitrary: v) (simp_all, metis of_nat_add of_nat_mult of_nat_numeral)

lemma base4_to_int_digits:
  "base4_to_int (map digitchar (map digit_of_symbol ss))
     = Inr (int (base4_value (map digit_of_symbol ss)))"
proof -
  have "\<forall>d \<in> set (map digit_of_symbol ss). d < 10"
  proof
    fix d assume "d \<in> set (map digit_of_symbol ss)"
    then obtain s where "d = digit_of_symbol s" by auto
    then show "d < 10" using digit_of_symbol_less [of s] by simp
  qed
  then have "base4_loop 0 (map digitchar (map digit_of_symbol ss))
      = Inr (foldl (\<lambda>v d. v * 4 + int d) 0 (map digit_of_symbol ss))"
    by (rule base4_loop_digits)
  also have "foldl (\<lambda>v d. v * 4 + int d) 0 (map digit_of_symbol ss)
      = int (base4_value (map digit_of_symbol ss))"
    using foldl_int [of 0 "map digit_of_symbol ss"] by (simp add: base4_value_def)
  finally show ?thesis by (simp add: base4_to_int_def)
qed

text \<open>
  The encoder never raises: its three lookups only see the digits it wrote itself.
\<close>

lemma generate_full_hex_explicit:
  "generate_full_hex ip hostname mac salt
     = Inr (format_x (int (code_number (combined_text ip hostname mac salt))))"
  by (simp add: generate_full_hex_def str_to_binary_bits binary_to_dna_bits dna_to_base4_syms
      base4_to_int_digits code_number_def Let_def del: map_map)

lemma generate_dna_token_derived:
  "generate_full_hex ip hostname mac salt = Inr fh \<Longrightarrow>
     generate_dna_token ip hostname mac salt rw wl None e
       = generate_dna_token ip hostname mac salt rw wl (Some fh) e"
  by (simp add: generate_dna_token_def)

lemma upper_length: "length (upper s) = length s"
  by (simp add: upper_def)

lemma randbelow_less: "randbelow e (Suc n) \<le> n"
  by (simp add: randbelow_def less_Suc_eq_le [symmetric])

lemma length_window:
  "off \<le> length s - w \<Longrightarrow> w \<le> length s \<Longrightarrow> length (take w (drop off s)) = w"
  by simp

lemma generate_dna_token_total:
  "0 < wl \<Longrightarrow> \<exists>tok. generate_dna_token ip hostname mac salt rw wl full_hex e = Inr tok"
  by (cases full_hex) (simp_all add: generate_dna_token_def generate_full_hex_explicit Let_def)

text \<open>A FullCode is a non-empty text of the digits \<open>0-9a-f\<close>, hence ASCII.\<close>

lemma to_hex_digits: "to_hex n \<noteq> [] \<and> list_all (\<lambda>c. (48 \<le> c \<and> c \<le> 57) \<or> (97 \<le> c \<and> c \<le> 102)) (to_hex n)"
proof (induction n rule: to_hex.induct)
  case (1 n)
  have d: "d < 16 \<Longrightarrow> (48 \<le> hex_digit d \<and> hex_digit d \<le> 57) \<or> (97 \<le> hex_digit d \<and> hex_digit d \<le> 102)"
    for d by (auto simp: hex_digit_def)
  show ?case
  proof (cases "n < 16")
    case True
    with d [of n] show ?thesis by (simp add: to_hex.simps [of n])
  next
    case False
    with 1 d [of "n mod 16"] show ?thesis by (simp add: to_hex.simps [of n])
  qed
qed

lemma full_code_is_hex:
  "\<exists>fc. generate_full_hex ip hostname mac salt = Inr fc \<and> fc \<noteq> []
     \<and> list_all (\<lambda>c. (48 \<le> c \<and> c \<le> 57) \<or> (97 \<le> c \<and> c \<le> 102)) fc \<and> ascii fc"
proof -
  let ?n = "code_number (combined_text ip hostname mac salt)"
  have fx: "format_x (int ?n) = to_hex ?n" by (simp add: format_x_def)
  have "ascii (to_hex ?n)"
    using to_hex_digits [of ?n] by (auto simp: ascii_def list_all_iff)
  with to_hex_digits [of ?n] show ?thesis
    by (simp add: generate_full_hex_explicit fx)
qed

section \<open>The bits of ASCII text are the bits of its bytes\<close>

lemma bits_msb_zero: "bits_msb k 0 = replicate k False"
  by (induction k) (simp_all add: replicate_append_same)

lemma nat_bits_pad:
  "n < 2 ^ k \<Longrightarrow> 0 < k \<Longrightarrow>
     length (nat_bits n) \<le> k
     \<and> replicate (k - length (nat_bits n)) False @ nat_bits n = bits_msb k n"
proof (induction k arbitrary: n)
  case 0
  then show ?case by simp
next
  case (Suc k)
  show ?case
  proof (cases "n < 2")
    case True
    then have "n = 0 \<or> n = 1" by auto
    then show ?thesis
      by (auto simp: nat_bits.simps [of n] bits_msb_zero)
  next
    case False
    then have k: "0 < k" using Suc.prems by (cases k) auto
    have "n div 2 < 2 ^ k" using Suc.prems by auto
    from Suc.IH [OF this k] False show ?thesis
      by (simp add: nat_bits.simps [of n] Suc_diff_le)
  qed
qed

lemma cp_bits_byte: "c < 256 \<Longrightarrow> cp_bits c = byte_bits c"
  using nat_bits_pad [of c 8] by (simp add: cp_bits_def byte_bits_def)

lemma utf8_ascii: "ascii s \<Longrightarrow> utf8_encode s = s"
  by (induction s) (simp_all add: ascii_def utf8_encode_def utf8_char_def)

lemma code_number_ascii: "ascii s \<Longrightarrow> code_number s = spec_number (utf8_encode s)"
proof -
  assume a: "ascii s"
  then have "map cp_bits s = map byte_bits s"
    by (induction s) (simp_all add: ascii_def cp_bits_byte)
  then show ?thesis
    unfolding code_number_def spec_number_def utf8_ascii [OF a] by (rule arg_cong)
qed

lemma ascii_append: "ascii (a @ b) = (ascii a \<and> ascii b)"
  by (simp add: ascii_def)

lemma ascii_lower: "ascii s \<Longrightarrow> ascii (lower s)"
  by (induction s) (auto simp: ascii_def lower_def lower_char_def)

lemma ascii_dropWhile: "ascii s \<Longrightarrow> ascii (dropWhile P s)"
  by (induction s) (auto simp: ascii_def)

lemma ascii_rev: "ascii (rev s) = ascii s"
  by (simp add: ascii_def list_all_iff)

lemma ascii_strip: "ascii s \<Longrightarrow> ascii (strip s)"
  by (simp add: strip_def ascii_rev ascii_dropWhile)

lemma combined_text_spec: "combined_text ip hostname mac salt = spec_text ip hostname mac salt"
  by (cases salt) (simp_all add: combined_text_def spec_text_def join3_def normalize_def)

lemma ascii_combined:
  assumes a: "ascii ip" "ascii hostname" "ascii mac" and s: "\<forall>s. salt = Some s \<longrightarrow> ascii s"
  shows "ascii (combined_text ip hostname mac salt)"
proof -
  have sep: "ascii [124]" by (simp add: ascii_def)
  have base: "ascii (lower (strip ip) @ [124] @ lower (strip hostname) @ [124] @ lower (strip mac))"
    using a sep by (simp only: ascii_append ascii_lower ascii_strip simp_thms)
  show ?thesis
  proof (cases salt)
    case None
    with base show ?thesis by (simp add: combined_text_def normalize_def)
  next
    case (Some x)
    with s have "ascii x" by simp
    with base sep
    have "ascii ((lower (strip ip) @ [124] @ lower (strip hostname) @ [124] @ lower (strip mac))
                   @ [124] @ x)"
      by (simp only: ascii_append simp_thms)
    with base Some show ?thesis by (simp add: combined_text_def normalize_def Let_def)
  qed
qed

section \<open>Claims about the encoder and the windower\<close>

text \<open>
  C3. For a FullCode \<open>fc\<close> (hexadecimal text, hence ASCII) and a positive
  \<open>window_len\<close> the windower returns a result whose token has exactly
  \<open>window_len\<close> characters: when \<open>fc\<close> is not longer than the window, the token is
  the uppercased \<open>fc\<close> padded on the left with \<open>0\<close> and the offset is 0; otherwise
  the token is the slice of the uppercased \<open>fc\<close> at the returned offset, which lies
  between 0 and \<open>len(fc) - window_len\<close> and is that upper bound in deterministic
  mode. A \<open>window_len\<close> that is not positive is refused with an error.
\<close>

theorem windower_correct:
  assumes "ascii fc"
  shows "(0 < wl \<longrightarrow>
           (\<exists>out. generate_dna_token ip hostname mac salt rw wl (Some fc) e = Inr out
              \<and> t_full_hex out = upper fc \<and> t_window_len out = wl
              \<and> int (length (t_token out)) = wl
              \<and> (int (length fc) \<le> wl \<longrightarrow>
                    t_token out = replicate (nat wl - length fc) 48 @ upper fc
                    \<and> t_offset out = 0)
              \<and> (wl < int (length fc) \<longrightarrow>
                    t_token out = take (nat wl) (drop (t_offset out) (upper fc))
                    \<and> t_offset out \<le> length fc - nat wl
                    \<and> (\<not> rw \<longrightarrow> t_offset out = length fc - nat wl))))
       \<and> (wl \<le> 0 \<longrightarrow>
            generate_dna_token ip hostname mac salt rw wl (Some fc) e = Inl InvalidWindowLength)"
proof (intro conjI impI)
  assume "wl \<le> 0"
  then show "generate_dna_token ip hostname mac salt rw wl (Some fc) e = Inl InvalidWindowLength"
    by (simp add: generate_dna_token_def Let_def)
next
  assume pos: "0 < wl"
  show "\<exists>out. generate_dna_token ip hostname mac salt rw wl (Some fc) e = Inr out
              \<and> t_full_hex out = upper fc \<and> t_window_len out = wl
              \<and> int (length (t_token out)) = wl
              \<and> (int (length fc) \<le> wl \<longrightarrow>
                    t_token out = replicate (nat wl - length fc) 48 @ upper fc
                    \<and> t_offset out = 0)
              \<and> (wl < int (length fc) \<longrightarrow>
                    t_token out = take (nat wl) (drop (t_offset out) (upper fc))
                    \<and> t_offset out \<le> length fc - nat wl
                    \<and> (\<not> rw \<longrightarrow> t_offset out = length fc - nat wl))"
  proof (cases "int (length fc) \<le> wl")
    case True
    with pos show ?thesis
      by (simp add: generate_dna_token_def Let_def upper_length last_n_def rjust_def)
  next
    case False
    define off where
      "off = (if rw then randbelow e ((length fc - nat wl) + 1) else length fc - nat wl)"
    have off: "off \<le> length fc - nat wl"
      using randbelow_less [of e "length fc - nat wl"] by (simp add: off_def)
    have w: "nat wl \<le> length (upper fc)" using False by (simp add: upper_length)
    have len: "length (take (nat wl) (drop off (upper fc))) = nat wl"
      using off w by (intro length_window) (simp_all add: upper_length)
    have gen: "generate_dna_token ip hostname mac salt rw wl (Some fc) e
                 = Inr \<lparr>t_full_hex = upper fc, t_token = take (nat wl) (drop off (upper fc)),
                        t_offset = off, t_window_len = wl\<rparr>"
      using False pos by (simp add: generate_dna_token_def Let_def upper_length off_def)
    show ?thesis
      unfolding gen using False pos off len by (auto simp: off_def)
  qed
qed

theorem windower_correct_witness:
  "ascii (py ''1a2b3c'')
   \<and> generate_dna_token [] [] [] None False 4 (Some (py ''1a2b3c'')) 0
       = Inr \<lparr>t_full_hex = py ''1A2B3C'', t_token = py ''2B3C'', t_offset = 2, t_window_len = 4\<rparr>
   \<and> generate_dna_token [] [] [] None True 8 (Some (py ''1a2b3c'')) 0
       = Inr \<lparr>t_full_hex = py ''1A2B3C'', t_token = py ''001A2B3C'', t_offset = 0, t_window_len = 8\<rparr>
   \<and> generate_dna_token [] [] [] None True 0 (Some (py ''1a2b3c'')) 0 = Inl InvalidWindowLength"
proof -
  have a: "ascii (py ''1a2b3c'')" by (simp add: text_eval)
  have u: "upper (py ''1a2b3c'') = py ''1A2B3C''" by (simp add: text_eval)
  have l: "length (py ''1a2b3c'') = 6" by (simp add: py_def)
  from windower_correct [OF a, of 4 "[]" "[]" "[]" None False 0]
  obtain out where o: "generate_dna_token [] [] [] None False 4 (Some (py ''1a2b3c'')) 0 = Inr out"
    "t_full_hex out = py ''1A2B3C''" "t_window_len out = 4"
    "t_token out = take 4 (drop (t_offset out) (py ''1A2B3C''))" "t_offset out = 2"
    by (auto simp: u l)
  have "out = \<lparr>t_full_hex = py ''1A2B3C'', t_token = py ''2B3C'', t_offset = 2, t_window_len = 4\<rparr>"
    using o(2-5) by (cases out) (simp add: py_def)
  with o(1) have one: "generate_dna_token [] [] [] None False 4 (Some (py ''1a2b3c'')) 0
       = Inr \<lparr>t_full_hex = py ''1A2B3C'', t_token = py ''2B3C'', t_offset = 2, t_window_len = 4\<rparr>"
    by simp
  from windower_correct [OF a, of 8 "[]" "[]" "[]" None True 0]
  obtain out' where o': "generate_dna_token [] [] [] None True 8 (Some (py ''1a2b3c'')) 0 = Inr out'"
    "t_full_hex out' = py ''1A2B3C''" "t_window_len out' = 8"
    "t_token out' = replicate 2 48 @ py ''1A2B3C''" "t_offset out' = 0"
    by (auto simp: u l)
  have "out' = \<lparr>t_full_hex = py ''1A2B3C'', t_token = py ''001A2B3C'', t_offset = 0,
                  t_window_len = 8\<rparr>"
    using o'(2-5) by (cases out') (simp add: py_def replicate_num)
  with o'(1) have two: "generate_dna_token [] [] [] None True 8 (Some (py ''1a2b3c'')) 0
       = Inr \<lparr>t_full_hex = py ''1A2B3C'', t_token = py ''001A2B3C'', t_offset = 0,
               t_window_len = 8\<rparr>"
    by simp
  from windower_correct [OF a, of 0 "[]" "[]" "[]" None True 0]
  have three: "generate_dna_token [] [] [] None True 0 (Some (py ''1a2b3c'')) 0
       = Inl InvalidWindowLength"
    by simp
  from a one two three show ?thesis by simp
qed

text \<open>
  C8. Encoding is a function of the normalized tuple and the salt: two tuples with the
  same normalized fields (trimmed, lowercased) have the same FullCode under every
  salt. Encoding the same inputs twice is the case of equal tuples; the encoder reads
  neither the clock nor the entropy. The proof uses nothing of trimming and
  lowercasing but that the encoder applies them to its fields first.
\<close>

theorem encoding_normalized:
  "normalize ip hostname mac = normalize ip' hostname' mac'
     \<Longrightarrow> generate_full_hex ip hostname mac salt = generate_full_hex ip' hostname' mac' salt"
  by (simp add: generate_full_hex_def combined_text_def)

theorem encoding_normalized_witness:
  "normalize (py '' 10.0.0.1'') (py ''H1'') (py ''AA:BB:CC:DD:EE:FF '')
     = normalize (py ''10.0.0.1'') (py ''h1'') (py ''aa:bb:cc:dd:ee:ff'')
   \<and> generate_full_hex (py '' 10.0.0.1'') (py ''H1'') (py ''AA:BB:CC:DD:EE:FF '') (Some (py ''s''))
     = generate_full_hex (py ''10.0.0.1'') (py ''h1'') (py ''aa:bb:cc:dd:ee:ff'') (Some (py ''s''))"
proof -
  have n: "normalize (py '' 10.0.0.1'') (py ''H1'') (py ''AA:BB:CC:DD:EE:FF '')
     = normalize (py ''10.0.0.1'') (py ''h1'') (py ''aa:bb:cc:dd:ee:ff'')"
    by (simp add: text_eval)
  from n encoding_normalized [OF n] show ?thesis by simp
qed

text \<open>
  C9, as the specification words it, fails: for a hostname with a character beyond
  code point 255 the encoder writes the binary digits of the code point, nine or
  more, where the text's byte sequence has two bytes or more.
\<close>

theorem full_code_bytes_counterexample:
  "generate_full_hex (py ''10.0.0.1'') [257] (py ''aa:bb:cc:dd:ee:ff'') None
     \<noteq> Inr (spec_full_code (py ''10.0.0.1'') [257] (py ''aa:bb:cc:dd:ee:ff'') None)"
proof -
  have "generate_full_hex (py ''10.0.0.1'') [257] (py ''aa:bb:cc:dd:ee:ff'') None
      = Inr (py ''62605c605c605c62f9017c61613a62623a63633a64643a65653a6666'')"
    by (simp add: enc_eval)
  moreover have "spec_full_code (py ''10.0.0.1'') [257] (py ''aa:bb:cc:dd:ee:ff'') None
      = py ''31302e302e302e317cc4817c61613a62623a63633a64643a65653a6666''"
    by (simp add: spec_eval)
  ultimately show ?thesis by (simp add: py_def)
qed

text \<open>
  C9, amended. For an identity tuple and a salt of ASCII text, the FullCode is the
  lowercase, unpadded hexadecimal rendering of the number obtained by concatenating
  the normalized fields (and the non-empty salt) with the separator, taking the bytes
  of the text, each byte's 8 bits most significant first, the bits in pairs (one
  \<open>0\<close> bit in front if their number is odd), each pair through the symbol table and
  back to a base-4 digit, and the digits read in base 4, most significant first.
\<close>

theorem full_code_ascii:
  assumes "ascii ip" "ascii hostname" "ascii mac" "\<forall>s. salt = Some s \<longrightarrow> ascii s"
  shows "generate_full_hex ip hostname mac salt = Inr (spec_full_code ip hostname mac salt)"
proof -
  have "ascii (combined_text ip hostname mac salt)"
    using assms by (rule ascii_combined)
  then have "code_number (combined_text ip hostname mac salt)
      = spec_number (utf8_encode (spec_text ip hostname mac salt))"
    by (simp add: code_number_ascii combined_text_spec)
  then show ?thesis
    by (simp add: generate_full_hex_explicit spec_full_code_def)
qed

theorem full_code_ascii_witness:
  "ascii (py ''10.0.0.1'') \<and> ascii (py ''h1'') \<and> ascii (py ''AA:BB:CC:DD:EE:FF'')
   \<and> ascii (py ''epoch-2025-10-16'')
   \<and> generate_full_hex (py ''10.0.0.1'') (py ''h1'') (py ''AA:BB:CC:DD:EE:FF'')
        (Some (py ''epoch-2025-10-16''))
      = Inr (spec_full_code (py ''10.0.0.1'') (py ''h1'') (py ''AA:BB:CC:DD:EE:FF'')
          (Some (py ''epoch-2025-10-16'')))"
proof -
  have a: "ascii (py ''10.0.0.1'')" "ascii (py ''h1'')" "ascii (py ''AA:BB:CC:DD:EE:FF'')"
    and s: "ascii (py ''epoch-2025-10-16'')"
    by (simp_all add: text_eval)
  from s have s': "\<forall>s. Some (py ''epoch-2025-10-16'') = Some s \<longrightarrow> ascii s" by simp
  from a s full_code_ascii [OF a s'] show ?thesis by simp
qed

text \<open>
  C10. With \<open>full_hex\<close> supplied the windower does not look at the identity fields or
  the salt: for the same supplied text, mode, window length and entropy the result is
  the same whatever they are, and so is its distribution over the entropy.
\<close>

theorem supplied_full_hex_independent:
  "generate_dna_token ip hostname mac salt rw wl (Some fh) e
     = generate_dna_token ip' hostname' mac' salt' rw wl (Some fh) e"
  by (simp add: generate_dna_token_def)

section \<open>The registry file\<close>

lemma write_read_row: "write_row (read_row c) = c"
  by (simp add: write_row_def read_row_def str_cell_def)

lemma write_read_rows: "map write_row (map read_row cs) = cs"
  by (induction cs) (simp_all add: write_read_row)

lemma write_read_rows_comp: "map (write_row \<circ> read_row) cs = cs"
  by (induction cs) (simp_all add: write_read_row)

lemma write_updated_row:
  "write_row ((read_row c)\<lparr>r_token := Dict tok, r_created := now\<rparr>)
     = c\<lparr>c_token := str_dict tok, c_created := now\<rparr>"
  by (simp add: write_row_def read_row_def str_cell_def)

lemma read_rows_ensure: "read_rows (ensure_registry f) = Inr (map read_row (file_rows f))"
  by (cases f) (simp_all add: read_rows_def ensure_registry_def file_rows_def)

lemma file_rows_ensure: "file_rows (ensure_registry f) = file_rows f"
  by (cases f) (simp_all add: ensure_registry_def file_rows_def)

lemma register_loop_None:
  "(register_loop ip hostname mac tok now rows = None)
     = ((ip, hostname, mac) \<notin> set (map (\<lambda>r. (r_ip r, r_hostname r, r_mac r)) rows))"
  by (induction rows) auto

lemma register_loop_Some:
  "register_loop ip hostname mac tok now rows = Some rows' \<Longrightarrow>
     \<exists>i < length rows.
        (r_ip (rows ! i), r_hostname (rows ! i), r_mac (rows ! i)) = (ip, hostname, mac)
        \<and> (\<forall>j < i. (r_ip (rows ! j), r_hostname (rows ! j), r_mac (rows ! j)) \<noteq> (ip, hostname, mac))
        \<and> rows' = rows[i := (rows ! i)\<lparr>r_token := tok, r_created := now\<rparr>]"
proof (induction rows arbitrary: rows')
  case Nil
  then show ?case by simp
next
  case (Cons r rs)
  show ?case
  proof (cases "r_ip r = ip \<and> r_mac r = mac \<and> r_hostname r = hostname")
    case True
    with Cons.prems have "rows' = (r # rs)[0 := ((r # rs) ! 0)\<lparr>r_token := tok, r_created := now\<rparr>]"
      by auto
    with True show ?thesis by (intro exI [of _ 0]) simp
  next
    case False
    with Cons.prems obtain rs' where rs': "register_loop ip hostname mac tok now rs = Some rs'"
      and eq: "rows' = r # rs'"
      by auto
    from Cons.IH [OF rs'] obtain i where i: "i < length rs"
      "(r_ip (rs ! i), r_hostname (rs ! i), r_mac (rs ! i)) = (ip, hostname, mac)"
      "\<forall>j < i. (r_ip (rs ! j), r_hostname (rs ! j), r_mac (rs ! j)) \<noteq> (ip, hostname, mac)"
      "rs' = rs[i := (rs ! i)\<lparr>r_token := tok, r_created := now\<rparr>]"
      by blast
    have "\<forall>j < Suc i. (r_ip ((r # rs) ! j), r_hostname ((r # rs) ! j), r_mac ((r # rs) ! j))
            \<noteq> (ip, hostname, mac)"
    proof (intro allI impI)
      fix j assume "j < Suc i"
      then show "(r_ip ((r # rs) ! j), r_hostname ((r # rs) ! j), r_mac ((r # rs) ! j))
            \<noteq> (ip, hostname, mac)"
        using False i(3) by (cases j) auto
    qed
    with i eq show ?thesis by (intro exI [of _ "Suc i"]) simp
  qed
qed

text \<open>What \<open>register_node\<close> does once both validators accept.\<close>

lemma register_node_unfold:
  assumes "is_valid_ip ip" "is_valid_mac mac"
  shows "\<exists>tok. generate_dna_token ip hostname mac salt True 8 None entropy = Inr tok
     \<and> register_node file ip hostname mac salt utcnow entropy
        = (Inr tok,
           Some (map write_row
             (case register_loop ip hostname mac (Dict tok) (datetime_isoformat utcnow)
                     (map read_row (file_rows file)) of
                Some updated \<Rightarrow> updated
              | None \<Rightarrow> map read_row (file_rows file)
                  @ [\<lparr>r_ip = ip, r_hostname = hostname, r_mac = mac, r_token = Dict tok,
                       r_created = datetime_isoformat utcnow\<rparr>])))"
proof -
  obtain tok where "generate_dna_token ip hostname mac salt True 8 None entropy = Inr tok"
    using generate_dna_token_total [of 8 ip hostname mac salt True None entropy] by auto
  with assms show ?thesis
    by (simp add: register_node_def Let_def read_rows_ensure write_rows_def split: option.split)
qed

text \<open>A rejected registration leaves every row of the file as it was.\<close>

lemma register_node_rejects:
  "\<not> is_valid_ip ip \<Longrightarrow>
     fst (register_node file ip hostname mac salt utcnow entropy) = Inl InvalidAddress
     \<and> file_rows (snd (register_node file ip hostname mac salt utcnow entropy)) = file_rows file"
  "is_valid_ip ip \<Longrightarrow> \<not> is_valid_mac mac \<Longrightarrow>
     fst (register_node file ip hostname mac salt utcnow entropy) = Inl InvalidHardwareId
     \<and> file_rows (snd (register_node file ip hostname mac salt utcnow entropy)) = file_rows file"
  by (simp_all add: register_node_def Let_def file_rows_ensure)

lemma key_read_row: "(r_ip (read_row c), r_hostname (read_row c), r_mac (read_row c)) = key c"
  by (simp add: read_row_def key_def)

lemma register_loop_Some_csv:
  assumes "register_loop ip hostname mac tok now (map read_row cs) = Some u"
  shows "\<exists>i < length cs. key (cs ! i) = (ip, hostname, mac)
           \<and> (\<forall>j < i. key (cs ! j) \<noteq> (ip, hostname, mac))
           \<and> u = (map read_row cs)[i := (read_row (cs ! i))\<lparr>r_token := tok, r_created := now\<rparr>]"
proof -
  let ?rows = "map read_row cs"
  from register_loop_Some [OF assms] obtain i where i: "i < length ?rows"
    and hit: "(r_ip (?rows ! i), r_hostname (?rows ! i), r_mac (?rows ! i)) = (ip, hostname, mac)"
    and first: "\<forall>j < i. (r_ip (?rows ! j), r_hostname (?rows ! j), r_mac (?rows ! j))
                   \<noteq> (ip, hostname, mac)"
    and u: "u = ?rows[i := (?rows ! i)\<lparr>r_token := tok, r_created := now\<rparr>]"
    by blast
  from i have len: "i < length cs" by simp
  from hit len have k: "key (cs ! i) = (ip, hostname, mac)"
    by (simp add: key_read_row)
  have f: "\<forall>j < i. key (cs ! j) \<noteq> (ip, hostname, mac)"
  proof (intro allI impI)
    fix j assume j: "j < i"
    with len have jl: "j < length cs" by simp
    from first j have "(r_ip (?rows ! j), r_hostname (?rows ! j), r_mac (?rows ! j))
                   \<noteq> (ip, hostname, mac)"
      by blast
    with jl show "key (cs ! j) \<noteq> (ip, hostname, mac)"
      by (simp add: key_read_row)
  qed
  from u len have "u = ?rows[i := (read_row (cs ! i))\<lparr>r_token := tok, r_created := now\<rparr>]"
    by simp
  with len k f show ?thesis by blast
qed

lemma count_distinct_key:
  "distinct (map f xs) \<Longrightarrow> y \<in> set (map f xs) \<Longrightarrow> length (filter (\<lambda>x. f x = y) xs) = 1"
proof (induction xs)
  case Nil
  then show ?case by simp
next
  case (Cons x xs)
  show ?case
  proof (cases "f x = y")
    case True
    with Cons.prems have "y \<notin> set (map f xs)" by auto
    then have "filter (\<lambda>x. f x = y) xs = []" by (auto simp: filter_empty_conv)
    with True show ?thesis by simp
  next
    case False
    with Cons show ?thesis by auto
  qed
qed

lemma count_absent_key:
  "y \<notin> set (map f xs) \<Longrightarrow> length (filter (\<lambda>x. f x = y) xs) = 0"
  by (auto simp: filter_empty_conv)

lemma verify_loop_texts:
  "verify_loop ip hostname mac (Dict d) (map read_row cs) = False"
  by (induction cs) (simp_all add: read_row_def)

text \<open>
  \<open>verify_node\<close> returns False on every file and every input: the value it compares
  with what it computed was read from the file, so it is a text.
\<close>

lemma verify_node_False: "fst (verify_node file ip hostname mac salt entropy) = Inr False"
proof -
  obtain tok where "verify_recomputed ip hostname mac salt entropy = Inr tok"
    using generate_dna_token_total [of 8 ip hostname mac salt True None entropy]
    by (auto simp: verify_recomputed_def)
  then show ?thesis
    by (simp add: verify_node_def Let_def read_rows_ensure verify_loop_texts)
qed

lemma verify_node_file: "snd (verify_node file ip hostname mac salt entropy) = ensure_registry file"
proof -
  obtain tok where "verify_recomputed ip hostname mac salt entropy = Inr tok"
    using generate_dna_token_total [of 8 ip hostname mac salt True None entropy]
    by (auto simp: verify_recomputed_def)
  then show ?thesis
    by (simp add: verify_node_def Let_def read_rows_ensure)
qed

lemma valid_ip_10_0_0_1: "is_valid_ip (py ''10.0.0.1'')"
  by (simp add: rx_eval)

lemma valid_mac_AA_FF: "is_valid_mac (py ''AA:BB:CC:DD:EE:FF'')"
  by (simp add: rx_eval)

section \<open>Claims about registration and verification\<close>

text \<open>
  C1. Registering \<open>("10.0.0.1", "h1", "AA:BB:CC:DD:EE:FF")\<close> and then verifying the
  same tuple with the same salt should return ok=true. In the code the registration
  succeeds and the verification that follows returns False, whatever the salt, the
  clock and the entropy of the two calls.
\<close>

theorem register_then_verify_fails:
  "(\<exists>tok. fst (register_node file (py ''10.0.0.1'') (py ''h1'') (py ''AA:BB:CC:DD:EE:FF'')
               salt utcnow e1) = Inr tok)
   \<and> fst (verify_node
           (snd (register_node file (py ''10.0.0.1'') (py ''h1'') (py ''AA:BB:CC:DD:EE:FF'')
                   salt utcnow e1))
           (py ''10.0.0.1'') (py ''h1'') (py ''AA:BB:CC:DD:EE:FF'') salt e2) = Inr False"
proof -
  from register_node_unfold [OF valid_ip_10_0_0_1 valid_mac_AA_FF, of "py ''h1''" salt e1 "file" utcnow]
  have "\<exists>tok. fst (register_node file (py ''10.0.0.1'') (py ''h1'') (py ''AA:BB:CC:DD:EE:FF'')
               salt utcnow e1) = Inr tok"
    by auto
  then show ?thesis by (simp add: verify_node_False)
qed

text \<open>
  C2. Verification should take the window at the stored offset and draw no random
  offset. In the code the value that \<open>verify_node\<close> compares with the stored token
  is windowed at an offset drawn from fresh entropy: for the tuple above the FullCode
  has 58 digits, the offset is the entropy modulo 51, and two draws give two different
  values to compare.
\<close>

theorem verify_draws_fresh_offset:
  "verify_recomputed (py ''10.0.0.1'') (py ''h1'') (py ''AA:BB:CC:DD:EE:FF'') None e
     = Inr \<lparr>t_full_hex = py ''31302E302E302E317C68317C61613A62623A63633A64643A65653A6666'',
            t_token = take 8 (drop (e mod 51)
              (py ''31302E302E302E317C68317C61613A62623A63633A64643A65653A6666'')),
            t_offset = e mod 51, t_window_len = 8\<rparr>
   \<and> verify_recomputed (py ''10.0.0.1'') (py ''h1'') (py ''AA:BB:CC:DD:EE:FF'') None 0
     \<noteq> verify_recomputed (py ''10.0.0.1'') (py ''h1'') (py ''AA:BB:CC:DD:EE:FF'') None 1"
proof -
  have fh: "generate_full_hex (py ''10.0.0.1'') (py ''h1'') (py ''AA:BB:CC:DD:EE:FF'') None
      = Inr (py ''31302e302e302e317c68317c61613a62623a63633a64643a65653a6666'')"
    by (simp add: enc_eval)
  have up: "upper (py ''31302e302e302e317c68317c61613a62623a63633a64643a65653a6666'')
      = py ''31302E302E302E317C68317C61613A62623A63633A64643A65653A6666''"
    by (simp add: text_eval)
  have len: "length (py ''31302E302E302E317C68317C61613A62623A63633A64643A65653A6666'') = 58"
    by (simp add: py_def)
  have gen: "verify_recomputed (py ''10.0.0.1'') (py ''h1'') (py ''AA:BB:CC:DD:EE:FF'') None e
     = Inr \<lparr>t_full_hex = py ''31302E302E302E317C68317C61613A62623A63633A64643A65653A6666'',
            t_token = take 8 (drop (e mod 51)
              (py ''31302E302E302E317C68317C61613A62623A63633A64643A65653A6666'')),
            t_offset = e mod 51, t_window_len = 8\<rparr>" for e
    by (simp add: verify_recomputed_def generate_dna_token_def fh up len Let_def randbelow_def)
  show ?thesis by (simp add: gen)
qed

text \<open>
  C4, as stated, fails: \<open>register_node\<close> looks a tuple up by its three texts as they
  were passed. Two tuples that are the same device after trimming and lowercasing get
  two rows.
\<close>

theorem register_normalized_counterexample:
  "same_device (py ''10.0.0.1'', py ''h1'', py ''AA:BB:CC:DD:EE:FF'')
               (py ''10.0.0.1'', py ''H1'', py ''AA:BB:CC:DD:EE:FF'')
   \<and> map key (file_rows (snd (register_node
         (snd (register_node None (py ''10.0.0.1'') (py ''h1'') (py ''AA:BB:CC:DD:EE:FF'') None
                 \<lparr>dt_ordinal = 739924, dt_hour = 1, dt_minute = 2, dt_second = 3,
                    dt_microsecond = 45\<rparr> 0))
         (py ''10.0.0.1'') (py ''H1'') (py ''AA:BB:CC:DD:EE:FF'') None
         \<lparr>dt_ordinal = 739924, dt_hour = 1, dt_minute = 2, dt_second = 4,
            dt_microsecond = 0\<rparr> 0)))
     = [(py ''10.0.0.1'', py ''h1'', py ''AA:BB:CC:DD:EE:FF''),
        (py ''10.0.0.1'', py ''H1'', py ''AA:BB:CC:DD:EE:FF'')]"
proof -
  define t1 where "t1 = \<lparr>dt_ordinal = 739924, dt_hour = 1, dt_minute = 2, dt_second = 3,
                    dt_microsecond = 45\<rparr>"
  define t2 where "t2 = \<lparr>dt_ordinal = 739924, dt_hour = 1, dt_minute = 2, dt_second = 4,
                    dt_microsecond = 0\<rparr>"
  have same: "same_device (py ''10.0.0.1'', py ''h1'', py ''AA:BB:CC:DD:EE:FF'')
               (py ''10.0.0.1'', py ''H1'', py ''AA:BB:CC:DD:EE:FF'')"
    by (simp add: same_device_def text_eval)
  have ne: "py ''h1'' \<noteq> py ''H1''" by (simp add: py_def)
  from register_node_unfold [OF valid_ip_10_0_0_1 valid_mac_AA_FF, of "py ''h1''" None 0 None t1]
  obtain tok1 where r1: "snd (register_node None (py ''10.0.0.1'') (py ''h1'')
        (py ''AA:BB:CC:DD:EE:FF'') None t1 0)
      = Some [\<lparr>c_ip = py ''10.0.0.1'', c_hostname = py ''h1'', c_mac = py ''AA:BB:CC:DD:EE:FF'',
                c_token = str_dict tok1, c_created = datetime_isoformat t1\<rparr>]"
    by (auto simp: file_rows_def write_row_def str_cell_def)
  from register_node_unfold [OF valid_ip_10_0_0_1 valid_mac_AA_FF, of "py ''H1''" None 0
      "snd (register_node None (py ''10.0.0.1'') (py ''h1'') (py ''AA:BB:CC:DD:EE:FF'') None t1 0)" t2]
  have "map key (file_rows (snd (register_node
         (snd (register_node None (py ''10.0.0.1'') (py ''h1'') (py ''AA:BB:CC:DD:EE:FF'') None t1 0))
         (py ''10.0.0.1'') (py ''H1'') (py ''AA:BB:CC:DD:EE:FF'') None t2 0)))
     = [(py ''10.0.0.1'', py ''h1'', py ''AA:BB:CC:DD:EE:FF''),
        (py ''10.0.0.1'', py ''H1'', py ''AA:BB:CC:DD:EE:FF'')]"
    using ne by (auto simp: r1 file_rows_def write_row_def read_row_def str_cell_def key_def)
  with same show ?thesis by (simp add: t1_def t2_def)
qed

text \<open>
  C4, amended. The registry is keyed by the three texts exactly as passed, without
  trimming or lowercasing. Registering, with a valid address and hardware identifier,
  a tuple for which a row with exactly these three texts exists replaces the token and
  the timestamp of the first such row, in place, and changes nothing else;
  registering any other tuple appends exactly one row. If no two rows of the file had
  the same three texts, then none have afterwards, and exactly one row has the
  registered tuple.
\<close>

theorem register_upsert_exact:
  assumes "is_valid_ip ip" "is_valid_mac mac"
  shows "\<exists>tok rows'.
     register_node file ip hostname mac salt utcnow entropy = (Inr tok, Some rows')
     \<and> ((ip, hostname, mac) \<in> set (map key (file_rows file)) \<longrightarrow>
          (\<exists>i < length (file_rows file).
              key (file_rows file ! i) = (ip, hostname, mac)
              \<and> (\<forall>j < i. key (file_rows file ! j) \<noteq> (ip, hostname, mac))
              \<and> rows' = (file_rows file)
                   [i := (file_rows file ! i)\<lparr>c_token := str_dict tok,
                                                c_created := datetime_isoformat utcnow\<rparr>]))
     \<and> ((ip, hostname, mac) \<notin> set (map key (file_rows file)) \<longrightarrow>
          rows' = file_rows file
             @ [\<lparr>c_ip = ip, c_hostname = hostname, c_mac = mac, c_token = str_dict tok,
                  c_created = datetime_isoformat utcnow\<rparr>])
     \<and> (distinct (map key (file_rows file)) \<longrightarrow>
          distinct (map key rows')
          \<and> length (filter (\<lambda>c. key c = (ip, hostname, mac)) rows') = 1)"
proof -
  define cs where "cs = file_rows file"
  define now where "now = datetime_isoformat utcnow"
  define new where "new = (\<lambda>tok. \<lparr>r_ip = ip, r_hostname = hostname, r_mac = mac,
                                   r_token = Dict tok, r_created = now\<rparr>)"
  define k where "k = (ip, hostname, mac)"
  from register_node_unfold [OF assms, of hostname salt entropy "file" utcnow]
  obtain tok where reg: "register_node file ip hostname mac salt utcnow entropy
        = (Inr tok,
           Some (map write_row
             (case register_loop ip hostname mac (Dict tok) now (map read_row cs) of
                Some updated \<Rightarrow> updated
              | None \<Rightarrow> map read_row cs @ [new tok])))"
    unfolding cs_def now_def new_def by blast
  define rows' where "rows' = map write_row
             (case register_loop ip hostname mac (Dict tok) now (map read_row cs) of
                Some updated \<Rightarrow> updated
              | None \<Rightarrow> map read_row cs @ [new tok])"
  have keys: "map (\<lambda>r. (r_ip r, r_hostname r, r_mac r)) (map read_row cs) = map key cs"
    by (simp add: key_read_row)
  have absent: "rows' = cs @ [\<lparr>c_ip = ip, c_hostname = hostname, c_mac = mac,
                  c_token = str_dict tok, c_created = now\<rparr>]" if "k \<notin> set (map key cs)"
  proof -
    from that have "register_loop ip hostname mac (Dict tok) now (map read_row cs) = None"
      unfolding register_loop_None keys k_def .
    then show ?thesis
      by (simp add: rows'_def write_read_rows_comp new_def write_row_def str_cell_def)
  qed
  have present: "\<exists>i < length cs. key (cs ! i) = k \<and> (\<forall>j < i. key (cs ! j) \<noteq> k)
        \<and> rows' = cs[i := (cs ! i)\<lparr>c_token := str_dict tok, c_created := now\<rparr>]"
    if "k \<in> set (map key cs)"
  proof -
    from that have "register_loop ip hostname mac (Dict tok) now (map read_row cs) \<noteq> None"
      unfolding register_loop_None keys k_def by simp
    then obtain u where u: "register_loop ip hostname mac (Dict tok) now (map read_row cs) = Some u"
      by auto
    from register_loop_Some_csv [OF u] obtain i where i: "i < length cs"
      "key (cs ! i) = k" "\<forall>j < i. key (cs ! j) \<noteq> k"
      "u = (map read_row cs)[i := (read_row (cs ! i))\<lparr>r_token := Dict tok, r_created := now\<rparr>]"
      unfolding k_def by blast
    have "rows' = cs[i := (cs ! i)\<lparr>c_token := str_dict tok, c_created := now\<rparr>]"
      by (simp add: rows'_def u i(4) map_update write_read_rows_comp write_updated_row)
    with i show ?thesis by blast
  qed
  have inv: "distinct (map key rows') \<and> length (filter (\<lambda>c. key c = k) rows') = 1"
    if d: "distinct (map key cs)"
  proof (cases "k \<in> set (map key cs)")
    case True
    from present [OF True] obtain i where i: "i < length cs" "key (cs ! i) = k"
      "rows' = cs[i := (cs ! i)\<lparr>c_token := str_dict tok, c_created := now\<rparr>]"
      by blast
    have "key ((cs ! i)\<lparr>c_token := str_dict tok, c_created := now\<rparr>) = key (cs ! i)"
      by (simp add: key_def)
    then have "map key rows' = map key cs"
      using i(1) by (simp add: i(3) map_update list_update_same_conv)
    with d True show ?thesis
      using count_distinct_key [of key rows' k] by simp
  next
    case False
    from absent [OF False] have "map key rows' = map key cs @ [k]"
      by (simp add: key_def k_def)
    moreover from this False have "k \<in> set (map key rows')" by simp
    ultimately show ?thesis
      using d False count_distinct_key [of key rows' k] by simp
  qed
  from reg absent present inv show ?thesis
    unfolding rows'_def [symmetric] cs_def [symmetric] now_def [symmetric] k_def [symmetric]
    by blast
qed

theorem register_upsert_exact_witness:
  "is_valid_ip (py ''10.0.0.1'') \<and> is_valid_mac (py ''AA:BB:CC:DD:EE:FF'')
   \<and> map key (file_rows (snd (register_node
         (Some [\<lparr>c_ip = py ''10.0.0.1'', c_hostname = py ''h1'', c_mac = py ''AA:BB:CC:DD:EE:FF'',
                  c_token = py ''old'', c_created = py ''2026-11-03T00:00:00''\<rparr>])
         (py ''10.0.0.1'') (py ''h1'') (py ''AA:BB:CC:DD:EE:FF'') None
         \<lparr>dt_ordinal = 739924, dt_hour = 1, dt_minute = 2, dt_second = 3, dt_microsecond = 45\<rparr>
         0)))
     = [(py ''10.0.0.1'', py ''h1'', py ''AA:BB:CC:DD:EE:FF'')]
   \<and> map key (file_rows (snd (register_node None
         (py ''10.0.0.1'') (py ''h1'') (py ''AA:BB:CC:DD:EE:FF'') None
         \<lparr>dt_ordinal = 739924, dt_hour = 1, dt_minute = 2, dt_second = 3, dt_microsecond = 45\<rparr>
         0)))
     = [(py ''10.0.0.1'', py ''h1'', py ''AA:BB:CC:DD:EE:FF'')]"
proof -
  define r0 where "r0 = \<lparr>c_ip = py ''10.0.0.1'', c_hostname = py ''h1'',
      c_mac = py ''AA:BB:CC:DD:EE:FF'', c_token = py ''old'',
      c_created = py ''2026-11-03T00:00:00''\<rparr>"
  define t1 where "t1 = \<lparr>dt_ordinal = 739924, dt_hour = 1, dt_minute = 2, dt_second = 3,
      dt_microsecond = 45\<rparr>"
  define k where "k = (py ''10.0.0.1'', py ''h1'', py ''AA:BB:CC:DD:EE:FF'')"
  have k0: "key r0 = k" by (simp add: key_def r0_def k_def)
  from register_upsert_exact [OF valid_ip_10_0_0_1 valid_mac_AA_FF, of "Some [r0]" "py ''h1''" None t1 0]
  obtain tok rows' where a: "register_node (Some [r0]) (py ''10.0.0.1'') (py ''h1'')
        (py ''AA:BB:CC:DD:EE:FF'') None t1 0 = (Inr tok, Some rows')"
    and b: "rows' = [r0][0 := ([r0] ! 0)\<lparr>c_token := str_dict tok,
                                          c_created := datetime_isoformat t1\<rparr>]"
    using k0 by (auto simp: file_rows_def k_def)
  from a b k0 have one: "map key (file_rows (snd (register_node (Some [r0]) (py ''10.0.0.1'')
        (py ''h1'') (py ''AA:BB:CC:DD:EE:FF'') None t1 0))) = [k]"
    by (simp add: file_rows_def key_def)
  from register_upsert_exact [OF valid_ip_10_0_0_1 valid_mac_AA_FF, of None "py ''h1''" None t1 0]
  obtain tok' rows'' where c: "register_node None (py ''10.0.0.1'') (py ''h1'')
        (py ''AA:BB:CC:DD:EE:FF'') None t1 0 = (Inr tok', Some rows'')"
    and d: "rows'' = [\<lparr>c_ip = py ''10.0.0.1'', c_hostname = py ''h1'',
        c_mac = py ''AA:BB:CC:DD:EE:FF'', c_token = str_dict tok',
        c_created = datetime_isoformat t1\<rparr>]"
    by (auto simp: file_rows_def)
  from c d have two: "map key (file_rows (snd (register_node None (py ''10.0.0.1'')
        (py ''h1'') (py ''AA:BB:CC:DD:EE:FF'') None t1 0))) = [k]"
    by (simp add: file_rows_def key_def k_def)
  from one two valid_ip_10_0_0_1 valid_mac_AA_FF show ?thesis
    by (simp add: r0_def t1_def k_def)
qed

text \<open>
  C7. Registration should fail with InvalidAddress for every address that is not in
  dotted-quad form. The pattern of \<open>is_valid_ip\<close> ends in \<open>$\<close>, which also holds
  before a final newline: the address \<open>"10.0.0.1\n"\<close> is not in dotted-quad form, is
  accepted, and is written to the registry. (An address that \<open>is_valid_ip\<close> refuses,
  and a hardware identifier that \<open>is_valid_mac\<close> refuses after it, do fail as claimed
  and leave the rows alone: \<open>register_node_rejects\<close>.)
\<close>

theorem register_accepts_trailing_newline:
  "\<not> dotted_quad (py ''10.0.0.1'' @ [10])
   \<and> is_valid_ip (py ''10.0.0.1'' @ [10])
   \<and> (\<exists>tok. register_node None (py ''10.0.0.1'' @ [10]) (py ''h'') (py ''AA:BB:CC:DD:EE:FF'')
               None utcnow e
         = (Inr tok,
            Some [\<lparr>c_ip = py ''10.0.0.1'' @ [10], c_hostname = py ''h'',
                    c_mac = py ''AA:BB:CC:DD:EE:FF'', c_token = str_dict tok,
                    c_created = datetime_isoformat utcnow\<rparr>]))"
proof -
  have nq: "\<not> dotted_quad (py ''10.0.0.1'' @ [10])"
    by (simp add: dotted_quad_def decimal_octet_def py_def)
  have v: "is_valid_ip (py ''10.0.0.1'' @ [10])"
    by (simp add: rx_eval)
  from register_node_unfold [OF v valid_mac_AA_FF, of "py ''h''" None e None utcnow]
  have "\<exists>tok. register_node None (py ''10.0.0.1'' @ [10]) (py ''h'') (py ''AA:BB:CC:DD:EE:FF'')
               None utcnow e
         = (Inr tok,
            Some [\<lparr>c_ip = py ''10.0.0.1'' @ [10], c_hostname = py ''h'',
                    c_mac = py ''AA:BB:CC:DD:EE:FF'', c_token = str_dict tok,
                    c_created = datetime_isoformat utcnow\<rparr>])"
    by (auto simp: file_rows_def write_row_def str_cell_def)
  with nq v show ?thesis by simp
qed

section \<open>Claims about loading and rotation\<close>

lemma header_keys_distinct:
  "py ''ip'' \<noteq> py ''hostname''" "py ''ip'' \<noteq> py ''mac''" "py ''ip'' \<noteq> py ''token''"
  "py ''ip'' \<noteq> py ''created''" "py ''hostname'' \<noteq> py ''mac''"
  "py ''hostname'' \<noteq> py ''token''" "py ''hostname'' \<noteq> py ''created''"
  "py ''mac'' \<noteq> py ''token''" "py ''mac'' \<noteq> py ''created''"
  "py ''token'' \<noteq> py ''created''"
  by (simp_all add: py_def)

lemma list_shape5:
  obtains "l = []" | a where "l = [a]" | a b where "l = [a, b]" | a b c where "l = [a, b, c]"
  | a b c d where "l = [a, b, c, d]" | a b c d e where "l = [a, b, c, d, e]"
  | a b c d e f rest where "l = a # b # c # d # e # f # rest"
proof (cases l)
  case Nil
  then show ?thesis using that(1) by simp
next
  case l1: (Cons a l1)
  show ?thesis
  proof (cases l1)
    case Nil
    with l1 show ?thesis using that(2) by simp
  next
    case l2: (Cons b l2)
    show ?thesis
    proof (cases l2)
      case Nil
      with l1 l2 show ?thesis using that(3) by simp
    next
      case l3: (Cons c l3)
      show ?thesis
      proof (cases l3)
        case Nil
        with l1 l2 l3 show ?thesis using that(4) by simp
      next
        case l4: (Cons d l4)
        show ?thesis
        proof (cases l4)
          case Nil
          with l1 l2 l3 l4 show ?thesis using that(5) by simp
        next
          case l5: (Cons e l5)
          show ?thesis
          proof (cases l5)
            case Nil
            with l1 l2 l3 l4 l5 show ?thesis using that(6) by simp
          next
            case (Cons f rest)
            with l1 l2 l3 l4 l5 show ?thesis using that(7) by simp
          qed
        qed
      qed
    qed
  qed
qed

text \<open>
  What \<open>csv.DictReader\<close> makes of one line under the header of \<open>registry.csv\<close>,
  whatever the number of its fields.
\<close>

lemma dict_reader_row_header:
  "dict_reader_row registry_header l
     = zip (map Some registry_header) (map Txt (take 5 l) @ replicate (5 - length l) PyNone)
       @ (if 5 < length l then [(None, Rest (drop 5 l))] else [])"
  by (rule list_shape5 [of l])
     (simp_all add: dict_reader_row_def dict_zip_def registry_header_def header_keys_distinct
        header_keys_distinct [symmetric] replicate_num Let_def)

text \<open>On a file that this module wrote the loading gives the rows of the model above.\<close>

lemma load_rows_written:
  "load_rows (Some (written_lines cs)) = map (\<lambda>c. dict_of_row (read_row c)) cs"
proof -
  have "dict_reader_row registry_header [c_ip c, c_hostname c, c_mac c, c_token c, c_created c]
      = dict_of_row (read_row c)" for c
    unfolding dict_reader_row_header
    by (simp add: dict_of_row_def read_row_def str_cell_def registry_header_def)
  then show ?thesis
    by (simp add: load_rows_def ensure_registry_raw_def dict_reader_def written_lines_def
        comp_def)
qed

text \<open>
  C6, as stated, fails in its second half: a JSON registry whose text \<open>json.load\<close>
  rejects is not refused with an error; it is loaded as the empty registry.
\<close>

theorem read_registry_malformed_counterexample:
  "read_registry (Present (Raises JSONDecodeError) :: (csv_dict, unit) json_file)
     = Inr (JList [])"
  by (simp add: read_registry_def)

text \<open>
  C6, amended. When the storage is absent, loading yields an empty registry and no
  error: \<open>_read_registry\<close> returns the empty list, and \<open>_ensure_registry\<close> creates a
  file with the header only, which has no rows. When the storage exists and its
  contents are malformed, loading does not fail with RegistryCorrupt. The JSON loader
  returns the empty registry when \<open>json.load\<close> rejects the text with
  \<open>JSONDecodeError\<close>, returns a decoded document as it is, a list or not, and lets
  every other exception of \<open>open\<close> and \<open>json.load\<close> through, so that its result
  is the empty registry exactly for an absent file, a rejected text and a document
  that is the empty list. The CSV loader makes a row of every non-blank line that
  \<open>csv.reader\<close> yields after the header: the fields of the line under the
  five keys in order, \<open>None\<close> under the keys that a short line lacks, and the fields
  of a long line beyond the fifth as a list under the key \<open>None\<close>; a file without
  any line has no rows.
\<close>

theorem load_absent_or_malformed:
  "read_registry (Absent :: ('a, 'b) json_file) = Inr (JList [])
   \<and> read_registry (Present (Raises e) :: ('a, 'b) json_file)
       = (if e = JSONDecodeError then Inr (JList []) else Inl e)
   \<and> read_registry (Present (Returns doc) :: ('a, 'b) json_file) = Inr doc
   \<and> (read_registry (f :: ('a, 'b) json_file) = Inr (JList []))
       = (f = Absent \<or> f = Present (Raises JSONDecodeError) \<or> f = Present (Returns (JList [])))
   \<and> load_rows None = []
   \<and> load_rows (Some []) = []
   \<and> load_rows (Some (registry_header # ls))
       = map (\<lambda>l. zip (map Some registry_header)
                      (map Txt (take 5 l) @ replicate (5 - length l) PyNone)
                    @ (if 5 < length l then [(None, Rest (drop 5 l))] else []))
           (filter (\<lambda>l. l \<noteq> []) ls)"
proof -
  have "load_rows (Some (registry_header # ls))
       = map (dict_reader_row registry_header) (filter (\<lambda>l. l \<noteq> []) ls)"
    by (simp add: load_rows_def ensure_registry_raw_def dict_reader_def)
  moreover have "dict_reader_row registry_header
       = (\<lambda>l. zip (map Some registry_header)
                      (map Txt (take 5 l) @ replicate (5 - length l) PyNone)
                    @ (if 5 < length l then [(None, Rest (drop 5 l))] else []))"
    by (rule ext) (rule dict_reader_row_header)
  ultimately have "load_rows (Some (registry_header # ls))
       = map (\<lambda>l. zip (map Some registry_header)
                      (map Txt (take 5 l) @ replicate (5 - length l) PyNone)
                    @ (if 5 < length l then [(None, Rest (drop 5 l))] else []))
           (filter (\<lambda>l. l \<noteq> []) ls)"
    by (simp only:)
  moreover have "load_rows None = []" "load_rows (Some []) = []"
    by (simp_all add: load_rows_def ensure_registry_raw_def dict_reader_def)
  moreover have "(read_registry f = Inr (JList []))
       = (f = Absent \<or> f = Present (Raises JSONDecodeError) \<or> f = Present (Returns (JList [])))"
    by (auto simp: read_registry_def split: json_file.splits json_load.splits if_splits)
  ultimately show ?thesis
    by (simp add: read_registry_def)
qed

theorem load_absent_or_malformed_witness:
  "read_registry (Present (Raises UnicodeDecodeError) :: (csv_dict, unit) json_file)
     = Inl UnicodeDecodeError
   \<and> read_registry (Present (Returns (JOther ())) :: (csv_dict, unit) json_file) = Inr (JOther ())
   \<and> load_rows (Some [registry_header, [py ''1.1.1.1'', py ''h''], [],
         [py ''a'', py ''b'', py ''c'', py ''d'', py ''e'', py ''f'', py ''g'']])
     = [[(Some (py ''ip''), Txt (py ''1.1.1.1'')), (Some (py ''hostname''), Txt (py ''h'')),
         (Some (py ''mac''), PyNone), (Some (py ''token''), PyNone),
         (Some (py ''created''), PyNone)],
        [(Some (py ''ip''), Txt (py ''a'')), (Some (py ''hostname''), Txt (py ''b'')),
         (Some (py ''mac''), Txt (py ''c'')), (Some (py ''token''), Txt (py ''d'')),
         (Some (py ''created''), Txt (py ''e'')), (None, Rest [py ''f'', py ''g''])]]"
proof -
  note inst = load_absent_or_malformed [where ?'a = csv_dict and ?'b = unit,
      of UnicodeDecodeError "JOther ()" Absent
      "[[py ''1.1.1.1'', py ''h''], [], [py ''a'', py ''b'', py ''c'', py ''d'', py ''e'', py ''f'',
         py ''g'']]"]
  have one: "read_registry (Present (Raises UnicodeDecodeError) :: (csv_dict, unit) json_file)
     = Inl UnicodeDecodeError"
    using inst by simp
  have two: "read_registry (Present (Returns (JOther ())) :: (csv_dict, unit) json_file)
     = Inr (JOther ())"
    using inst by simp
  have three: "load_rows (Some [registry_header, [py ''1.1.1.1'', py ''h''], [],
         [py ''a'', py ''b'', py ''c'', py ''d'', py ''e'', py ''f'', py ''g'']])
     = [[(Some (py ''ip''), Txt (py ''1.1.1.1'')), (Some (py ''hostname''), Txt (py ''h'')),
         (Some (py ''mac''), PyNone), (Some (py ''token''), PyNone),
         (Some (py ''created''), PyNone)],
        [(Some (py ''ip''), Txt (py ''a'')), (Some (py ''hostname''), Txt (py ''b'')),
         (Some (py ''mac''), Txt (py ''c'')), (Some (py ''token''), Txt (py ''d'')),
         (Some (py ''created''), Txt (py ''e'')), (None, Rest [py ''f'', py ''g''])]]"
    using inst by (simp add: registry_header_def replicate_num)
  from one two three show ?thesis by simp
qed

lemma rotate_loop_rows:
  "\<exists>rows'. rotate_loop salt clock entropy i (map read_row cs) = Inr rows'
     \<and> length rows' = length cs
     \<and> (\<forall>j < length cs. \<exists>tok.
           generate_dna_token (c_ip (cs ! j)) (c_hostname (cs ! j)) (c_mac (cs ! j)) (Some salt)
             True 8 None (entropy (i + j)) = Inr tok
           \<and> write_row (rows' ! j)
               = (cs ! j)\<lparr>c_token := str_dict tok,
                           c_created := datetime_isoformat (clock (i + j))\<rparr>)"
proof (induction cs arbitrary: i)
  case Nil
  show ?case by simp
next
  case (Cons c cs)
  obtain tok where tok: "generate_dna_token (c_ip c) (c_hostname c) (c_mac c) (Some salt)
      True 8 None (entropy i) = Inr tok"
    using generate_dna_token_total [of 8 "c_ip c" "c_hostname c" "c_mac c" "Some salt" True None
        "entropy i"]
    by auto
  from Cons.IH [of "Suc i"] obtain rs' where rs': "rotate_loop salt clock entropy (Suc i)
      (map read_row cs) = Inr rs'" "length rs' = length cs"
    and each: "\<forall>j < length cs. \<exists>tok.
           generate_dna_token (c_ip (cs ! j)) (c_hostname (cs ! j)) (c_mac (cs ! j)) (Some salt)
             True 8 None (entropy (Suc i + j)) = Inr tok
           \<and> write_row (rs' ! j)
               = (cs ! j)\<lparr>c_token := str_dict tok,
                           c_created := datetime_isoformat (clock (Suc i + j))\<rparr>"
    by blast
  let ?r = "(read_row c)\<lparr>r_token := Dict tok, r_created := datetime_isoformat (clock i)\<rparr>"
  have run: "rotate_loop salt clock entropy i (map read_row (c # cs)) = Inr (?r # rs')"
    using tok rs'(1) by (simp add: read_row_def)
  have "\<exists>tok. generate_dna_token (c_ip ((c # cs) ! j)) (c_hostname ((c # cs) ! j))
             (c_mac ((c # cs) ! j)) (Some salt) True 8 None (entropy (i + j)) = Inr tok
           \<and> write_row ((?r # rs') ! j)
               = ((c # cs) ! j)\<lparr>c_token := str_dict tok,
                                 c_created := datetime_isoformat (clock (i + j))\<rparr>"
    if "j < length (c # cs)" for j
  proof (cases j)
    case 0
    with tok show ?thesis by (simp add: write_updated_row)
  next
    case (Suc j')
    with that have "j' < length cs" by simp
    with each Suc show ?thesis by simp
  qed
  with run rs'(2) show ?case by simp
qed

text \<open>
  C5. \<open>rotate_tokens days salt_prefix\<close>, called while the date \<open>days\<close> days after the
  current UTC date is in the calendar, returns the salt \<open>salt_prefix + "-" +\<close> the ISO
  form of that date. The file then has as many rows as before, and row \<open>i\<close> is the
  old row \<open>i\<close> with its token replaced by the result of the windower in random mode
  on the FullCode derived from the row's own tuple and the new salt, and with its
  timestamp replaced by the clock reading taken for that row.
\<close>

theorem rotate_tokens_correct:
  assumes "1 \<le> dt_ordinal utcnow" "dt_ordinal utcnow \<le> 3652059"
    and "1 \<le> dt_ordinal utcnow + days" "dt_ordinal utcnow + days \<le> 3652059"
  shows "\<exists>rows'.
     rotate_tokens file days salt_prefix utcnow clock entropy
       = (Inr (salt_prefix @ py ''-'' @ date_isoformat (dt_ordinal utcnow + days)), Some rows')
     \<and> length rows' = length (file_rows file)
     \<and> (\<forall>i < length (file_rows file). \<exists>fc tok.
           generate_full_hex (c_ip (file_rows file ! i)) (c_hostname (file_rows file ! i))
             (c_mac (file_rows file ! i))
             (Some (salt_prefix @ py ''-'' @ date_isoformat (dt_ordinal utcnow + days))) = Inr fc
           \<and> generate_dna_token (c_ip (file_rows file ! i)) (c_hostname (file_rows file ! i))
               (c_mac (file_rows file ! i))
               (Some (salt_prefix @ py ''-'' @ date_isoformat (dt_ordinal utcnow + days)))
               True 8 (Some fc) (entropy i) = Inr tok
           \<and> rows' ! i = (file_rows file ! i)\<lparr>c_token := str_dict tok,
                              c_created := datetime_isoformat (clock i)\<rparr>)"
proof -
  define salt where "salt = salt_prefix @ py ''-'' @ date_isoformat (dt_ordinal utcnow + days)"
  define cs where "cs = file_rows file"
  have dash: "py ''-'' = [45]" by (simp add: py_def)
  from assms have add: "add_days utcnow days = Inr (utcnow\<lparr>dt_ordinal := dt_ordinal utcnow + days\<rparr>)"
    by (simp add: add_days_def)
  from rotate_loop_rows [of salt clock entropy 0 cs]
  obtain rows where rows: "rotate_loop salt clock entropy 0 (map read_row cs) = Inr rows"
    "length rows = length cs"
    and each: "\<forall>j < length cs. \<exists>tok.
           generate_dna_token (c_ip (cs ! j)) (c_hostname (cs ! j)) (c_mac (cs ! j)) (Some salt)
             True 8 None (entropy (0 + j)) = Inr tok
           \<and> write_row (rows ! j)
               = (cs ! j)\<lparr>c_token := str_dict tok,
                           c_created := datetime_isoformat (clock (0 + j))\<rparr>"
    by blast
  have run: "rotate_tokens file days salt_prefix utcnow clock entropy
      = (Inr salt, Some (map write_row rows))"
    using add rows(1)
    by (simp add: rotate_tokens_def Let_def read_rows_ensure write_rows_def salt_def cs_def dash)
  have "\<exists>fc tok. generate_full_hex (c_ip (cs ! i)) (c_hostname (cs ! i)) (c_mac (cs ! i))
             (Some salt) = Inr fc
           \<and> generate_dna_token (c_ip (cs ! i)) (c_hostname (cs ! i)) (c_mac (cs ! i))
               (Some salt) True 8 (Some fc) (entropy i) = Inr tok
           \<and> map write_row rows ! i = (cs ! i)\<lparr>c_token := str_dict tok,
                              c_created := datetime_isoformat (clock i)\<rparr>"
    if i: "i < length cs" for i
  proof -
    from each i obtain tok where tok: "generate_dna_token (c_ip (cs ! i)) (c_hostname (cs ! i))
        (c_mac (cs ! i)) (Some salt) True 8 None (entropy i) = Inr tok"
      and row: "write_row (rows ! i) = (cs ! i)\<lparr>c_token := str_dict tok,
                           c_created := datetime_isoformat (clock i)\<rparr>"
      by auto
    obtain fc where fc: "generate_full_hex (c_ip (cs ! i)) (c_hostname (cs ! i)) (c_mac (cs ! i))
             (Some salt) = Inr fc"
      by (simp add: generate_full_hex_explicit)
    from generate_dna_token_derived [OF fc, of True 8 "entropy i"] tok
    have "generate_dna_token (c_ip (cs ! i)) (c_hostname (cs ! i)) (c_mac (cs ! i))
               (Some salt) True 8 (Some fc) (entropy i) = Inr tok"
      by simp
    with fc row i rows(2) show ?thesis by simp
  qed
  with run rows(2) show ?thesis
    unfolding salt_def [symmetric] cs_def [symmetric] by simp
qed

theorem rotate_tokens_correct_witness:
  "(1::int) \<le> 739924 \<and> (739924::int) \<le> 3652059 \<and> (1::int) \<le> 739924 + 7
   \<and> (739924::int) + 7 \<le> 3652059
   \<and> fst (rotate_tokens
        (Some [\<lparr>c_ip = py ''10.0.0.1'', c_hostname = py ''h1'', c_mac = py ''AA:BB:CC:DD:EE:FF'',
                 c_token = py ''old'', c_created = py ''2026-11-03T00:00:00''\<rparr>])
        7 (py ''epoch'')
        \<lparr>dt_ordinal = 739924, dt_hour = 1, dt_minute = 2, dt_second = 3, dt_microsecond = 45\<rparr>
        (\<lambda>i. \<lparr>dt_ordinal = 739924, dt_hour = 1, dt_minute = 2, dt_second = 3,
                dt_microsecond = 46 + i\<rparr>)
        (\<lambda>i. 3 + i))
      = Inr (py ''epoch-2026-11-11'')"
proof -
  define t0 where "t0 = \<lparr>dt_ordinal = 739924, dt_hour = 1, dt_minute = 2, dt_second = 3,
      dt_microsecond = 45\<rparr>"
  define f0 where "f0 = Some [\<lparr>c_ip = py ''10.0.0.1'', c_hostname = py ''h1'',
      c_mac = py ''AA:BB:CC:DD:EE:FF'', c_token = py ''old'',
      c_created = py ''2026-11-03T00:00:00''\<rparr>]"
  define clock :: "nat \<Rightarrow> datetime" where "clock = (\<lambda>i. \<lparr>dt_ordinal = 739924, dt_hour = 1,
      dt_minute = 2, dt_second = 3, dt_microsecond = 46 + i\<rparr>)"
  define entropy :: "nat \<Rightarrow> nat" where "entropy = (\<lambda>i. 3 + i)"
  have h: "1 \<le> dt_ordinal t0" "dt_ordinal t0 \<le> 3652059" "1 \<le> dt_ordinal t0 + 7"
    "dt_ordinal t0 + 7 \<le> 3652059"
    by (simp_all add: t0_def)
  have n: "dt_ordinal t0 + 7 = 739931" by (simp add: t0_def)
  have o: "ord2ymd 739931 = (2026, 11, 11)"
    unfolding ord2ymd_def Let_def by simp
  have d: "date_isoformat 739931 = py ''2026-11-11''"
    by (simp add: date_isoformat_def o zero_pad_def rjust_def to_dec.simps py_def)
  from rotate_tokens_correct [OF h, of f0 "py ''epoch''" clock entropy]
  obtain rows' where "rotate_tokens f0 7 (py ''epoch'') t0 clock entropy
      = (Inr (py ''epoch'' @ py ''-'' @ date_isoformat (dt_ordinal t0 + 7)), Some rows')"
    by (elim exE conjE)
  then have "fst (rotate_tokens f0 7 (py ''epoch'') t0 clock entropy)
      = Inr (py ''epoch-2026-11-11'')"
    by (simp add: n d py_def)
  then show ?thesis
    unfolding t0_def f0_def clock_def entropy_def by simp
qed

end
